(* ===== verification/Prelude.thy ===== *)
theory Prelude
  imports Main "HOL-Library.Word"
begin

text \<open>
  Shared vocabulary of the development. JavaScript code that may throw is modelled as
  a function into a sum type, the thrown value on the left (\<open>Inl\<close>) and the normal
  result on the right (\<open>Inr\<close>); \<open>sbind\<close> sequences two such computations the way
  two statements of the source run one after the other, the first exception aborting the
  rest. The collections \<open>js_simps\<close> (evaluation equations of the JavaScript runtime
  fragment) and \<open>wf_intros\<close> (closure facts of the well-formedness invariant) are filled
  by the component theories and used by their proofs.
\<close>

named_theorems js_simps "evaluation equations of the JavaScript runtime fragment"
named_theorems wf_intros "closure rules of the value well-formedness invariant"

subsection \<open>Sequencing computations that may throw\<close>

definition sbind :: "'e + 'a \<Rightarrow> ('a \<Rightarrow> 'e + 'b) \<Rightarrow> 'e + 'b" where
  "sbind m f = (case m of Inl e \<Rightarrow> Inl e | Inr a \<Rightarrow> f a)"

lemma sbind_Inl [simp]: "sbind (Inl e) f = Inl e"
  by (simp add: sbind_def)

lemma sbind_Inr [simp]: "sbind (Inr a) f = f a"
  by (simp add: sbind_def)

lemma sbind_Inr_right [simp]: "sbind m Inr = m"
  by (cases m) simp_all

lemma sbind_eq_Inr_iff [simp]:
  "sbind m f = Inr b \<longleftrightarrow> (\<exists>a. m = Inr a \<and> f a = Inr b)"
  by (cases m) simp_all

lemma sbind_eq_Inl_iff:
  "sbind m f = Inl e \<longleftrightarrow> m = Inl e \<or> (\<exists>a. m = Inr a \<and> f a = Inl e)"
  by (cases m) simp_all

lemma sbind_cong [fundef_cong]:
  "m = m' \<Longrightarrow> (\<And>a. m' = Inr a \<Longrightarrow> f a = g a) \<Longrightarrow> sbind m f = sbind m' g"
  by (cases m') simp_all

text \<open>Mapping a function that may throw over a list, left to right, stopping at the first
  exception (a \<open>for\<close> loop over an iterable).\<close>

fun smap :: "('a \<Rightarrow> 'e + 'b) \<Rightarrow> 'a list \<Rightarrow> 'e + 'b list" where
  "smap f [] = Inr []"
| "smap f (x # xs) = sbind (f x) (\<lambda>y. sbind (smap f xs) (\<lambda>ys. Inr (y # ys)))"

lemma smap_Inr_iff: "smap f xs = Inr ys \<longleftrightarrow> list_all2 (\<lambda>x y. f x = Inr y) xs ys"
  by (induction xs arbitrary: ys) (auto simp: list_all2_Cons1)

lemma smap_map_Inr [simp]: "smap (\<lambda>x. Inr (g x)) xs = Inr (map g xs)"
  by (induction xs) simp_all

lemma smap_length: "smap f xs = Inr ys \<Longrightarrow> length ys = length xs"
  by (simp add: smap_Inr_iff list_all2_lengthD)

text \<open>\<open>List.map_filter\<close> over appended and updated lists.\<close>

lemma map_filter_append: "List.map_filter f (xs @ ys) = List.map_filter f xs @ List.map_filter f ys"
  by (simp add: List.map_filter_def)

lemma map_filter_Cons: "List.map_filter f (x # xs) =
   (case f x of None \<Rightarrow> List.map_filter f xs | Some y \<Rightarrow> y # List.map_filter f xs)"
  by (simp add: List.map_filter_def split: option.split)

lemma map_filter_update:
  assumes "i < length xs"
  shows "List.map_filter f (xs[i := y]) =
           List.map_filter f (take i xs) @ List.map_filter f [y] @ List.map_filter f (drop (Suc i) xs)"
    and "List.map_filter f xs =
           List.map_filter f (take i xs) @ List.map_filter f [xs ! i] @ List.map_filter f (drop (Suc i) xs)"
   apply (subst upd_conv_take_nth_drop [OF assms])
   apply (metis append_Cons append_Nil map_filter_append)
  using assms by (metis append_Cons append_Nil id_take_nth_drop map_filter_append)

lemma length_map_filter: "length (List.map_filter f xs) = length (filter (\<lambda>x. f x \<noteq> None) xs)"
  by (simp add: List.map_filter_def)

subsection \<open>Association lists as JavaScript objects\<close>

text \<open>A plain object's own properties, in insertion order, as an association list;
  reading a property is \<open>map_of\<close>, writing one replaces the first binding in place or
  appends a new one at the end (the order \<open>Object.keys\<close> reports).\<close>

fun assoc_set :: "'k \<Rightarrow> 'v \<Rightarrow> ('k \<times> 'v) list \<Rightarrow> ('k \<times> 'v) list" where
  "assoc_set k v [] = [(k, v)]"
| "assoc_set k v ((k', v') # ps) =
     (if k' = k then (k, v) # ps else (k', v') # assoc_set k v ps)"

lemma map_of_assoc_set [simp]: "map_of (assoc_set k v ps) = (map_of ps)(k \<mapsto> v)"
  by (induction ps) (auto simp: fun_eq_iff)

lemma keys_assoc_set: "map fst (assoc_set k v ps) =
  (if k \<in> set (map fst ps) then map fst ps else map fst ps @ [k])"
  by (induction ps) (fastforce simp: image_iff)+

subsection \<open>Decimal rendering of integers\<close>

fun nat_digits :: "nat \<Rightarrow> string" where
  "nat_digits n =
     (if n < 10 then [char_of (48 + n)] else nat_digits (n div 10) @ [char_of (48 + n mod 10)])"

declare nat_digits.simps [simp del]

definition int_to_dec :: "int \<Rightarrow> string" where
  "int_to_dec i = (if i < 0 then CHR ''-'' # nat_digits (nat (- i)) else nat_digits (nat i))"

text \<open>What evaluating a decimal rendering by \<open>simp\<close> needs.\<close>

lemmas dec_eval = nat_digits.simps int_to_dec_def char_of_def bit_0

lemma nat_digits_nonempty: "nat_digits n \<noteq> []"
  by (subst nat_digits.simps) simp

end
