(* ===== verification/JsValue.thy ===== *)
theory JsValue
  imports Prelude
begin

text \<open>
  The fragment of JavaScript values and conversions that the middleware relies on
  (ECMAScript 2023, sections 7.1 and 7.2): primitive values, objects with the internal
  slot their constructor gave them (\<open>[[BooleanData]]\<close>, \<open>[[NumberData]]\<close>,
  \<open>[[StringData]]\<close>, array elements, own properties), and the class chain of an object,
  which records how many times \<open>class PrivateValue extends Constructor\<close> has been
  applied above a built-in constructor. Numbers are the integers and NaN: the program's
  data has no fractional numbers. Objects are values: the development never compares two
  objects by reference, and the one operation that would (\<open>==\<close> on two objects) says so
  in its result type.
\<close>

datatype jserror = TypeError | RangeError

datatype jnum = JNaN | JInt int

datatype builtin = BBoolean | BNumber | BString | BArray | BObject | BBigInt | BSymbol

datatype cls = Builtin builtin | PrivateValue cls

datatype jsval =
    JUndefined
  | JNull
  | JBool bool
  | JNum jnum
  | JStr string
  | JBigInt int
  | JSymbol string
  | JObj cls slot
and slot =
    SBool bool
  | SNum jnum
  | SStr string
  | SArr "jsval option list"
  | SProps "(string \<times> jsval) list"

datatype jstype = TUndefined | TNull | TBoolean | TNumber | TString | TBigInt | TSymbol | TObject

primrec base_of :: "cls \<Rightarrow> builtin" where
  "base_of (Builtin b) = b"
| "base_of (PrivateValue c) = base_of c"

primrec is_private_cls :: "cls \<Rightarrow> bool" where
  "is_private_cls (Builtin b) = False"
| "is_private_cls (PrivateValue c) = True"

fun type_of :: "jsval \<Rightarrow> jstype" where
  "type_of JUndefined = TUndefined"
| "type_of JNull = TNull"
| "type_of (JBool b) = TBoolean"
| "type_of (JNum n) = TNumber"
| "type_of (JStr s) = TString"
| "type_of (JBigInt i) = TBigInt"
| "type_of (JSymbol d) = TSymbol"
| "type_of (JObj c s) = TObject"

abbreviation is_object :: "jsval \<Rightarrow> bool" where
  "is_object v \<equiv> type_of v = TObject"

subsection \<open>ToBoolean (7.1.2)\<close>

fun to_boolean :: "jsval \<Rightarrow> bool" where
  "to_boolean JUndefined = False"
| "to_boolean JNull = False"
| "to_boolean (JBool b) = b"
| "to_boolean (JNum JNaN) = False"
| "to_boolean (JNum (JInt i)) = (i \<noteq> 0)"
| "to_boolean (JStr s) = (s \<noteq> [])"
| "to_boolean (JBigInt i) = (i \<noteq> 0)"
| "to_boolean (JSymbol d) = True"
| "to_boolean (JObj c s) = True"

subsection \<open>Numeric strings (StringToNumber, StringToBigInt)\<close>

text \<open>The integer literals of the StringNumericLiteral grammar: white space around an
  optionally signed run of decimal digits; the empty (or all white space) string is 0.
  Fractional, exponent, hexadecimal and \<open>Infinity\<close> literals denote values outside the
  integer model and are read as not a number.\<close>

definition js_ws :: "char \<Rightarrow> bool" where
  "js_ws c \<longleftrightarrow> c \<in> {CHR '' '', CHR 0x09, CHR 0x0A, CHR 0x0B, CHR 0x0C, CHR 0x0D}"

definition trim_ws :: "string \<Rightarrow> string" where
  "trim_ws s = rev (dropWhile js_ws (rev (dropWhile js_ws s)))"

definition is_dec_digit :: "char \<Rightarrow> bool" where
  "is_dec_digit c \<longleftrightarrow> 48 \<le> (of_char c :: nat) \<and> (of_char c :: nat) \<le> 57"

definition digits_value :: "string \<Rightarrow> int option" where
  "digits_value ds =
     (if ds \<noteq> [] \<and> list_all is_dec_digit ds
      then Some (foldl (\<lambda>acc c. 10 * acc + (int (of_char c) - 48)) 0 ds) else None)"

definition parse_int_literal :: "string \<Rightarrow> int option" where
  "parse_int_literal s =
     (case trim_ws s of
        [] \<Rightarrow> Some 0
      | c # ds \<Rightarrow>
          if c = CHR ''-'' then map_option uminus (digits_value ds)
          else if c = CHR ''+'' then digits_value ds
          else digits_value (c # ds))"

definition string_to_number :: "string \<Rightarrow> jnum" where
  "string_to_number s = (case parse_int_literal s of Some i \<Rightarrow> JInt i | None \<Rightarrow> JNaN)"

primrec num_to_string :: "jnum \<Rightarrow> string" where
  "num_to_string JNaN = ''NaN''"
| "num_to_string (JInt i) = int_to_dec i"

subsection \<open>ToString and ToPrimitive (7.1.17, 7.1.1)\<close>

text \<open>An object becomes a primitive through its \<open>valueOf\<close> and \<open>toString\<close> methods. For
  the wrapper objects of booleans, numbers and strings \<open>valueOf\<close> returns the wrapped
  primitive; arrays and plain objects inherit \<open>Object.prototype.valueOf\<close>, which returns
  the object itself, so their \<open>toString\<close> runs: \<open>Array.prototype.join\<close> with a comma
  (holes, \<open>undefined\<close> and \<open>null\<close> give the empty string) and
  \<open>"[object Object]"\<close>. \<open>PrivateValue\<close> overrides neither method, and its
  \<open>[Symbol.toStringTag]\<close> is a method, not a string, so \<open>Object.prototype.toString\<close>
  ignores it: the conversions below depend only on the base constructor.\<close>

fun join_comma :: "string list \<Rightarrow> string" where
  "join_comma [] = []"
| "join_comma [s] = s"
| "join_comma (s # ss) = s @ CHR '','' # join_comma ss"

function to_str :: "jsval \<Rightarrow> jserror + string"
  and to_str_elems :: "jsval option list \<Rightarrow> jserror + string list" where
  "to_str JUndefined = Inr ''undefined''"
| "to_str JNull = Inr ''null''"
| "to_str (JBool b) = Inr (if b then ''true'' else ''false'')"
| "to_str (JNum n) = Inr (num_to_string n)"
| "to_str (JStr s) = Inr s"
| "to_str (JBigInt i) = Inr (int_to_dec i)"
| "to_str (JSymbol d) = Inl TypeError"
| "to_str (JObj c (SBool b)) = Inr (if b then ''true'' else ''false'')"
| "to_str (JObj c (SNum n)) = Inr (num_to_string n)"
| "to_str (JObj c (SStr s)) = Inr s"
| "to_str (JObj c (SArr xs)) = sbind (to_str_elems xs) (\<lambda>ss. Inr (join_comma ss))"
| "to_str (JObj c (SProps ps)) = Inr ''[object Object]''"
| "to_str_elems [] = Inr []"
| "to_str_elems (None # xs) = sbind (to_str_elems xs) (\<lambda>ss. Inr ([] # ss))"
| "to_str_elems (Some v # xs) =
     sbind (if v = JUndefined \<or> v = JNull then Inr [] else to_str v)
       (\<lambda>s. sbind (to_str_elems xs) (\<lambda>ss. Inr (s # ss)))"
  by pat_completeness auto
termination
  by (relation "measure (case_sum size (size_list (size_option size)))") auto

fun to_primitive :: "jsval \<Rightarrow> jserror + jsval" where
  "to_primitive (JObj c (SBool b)) = Inr (JBool b)"
| "to_primitive (JObj c (SNum n)) = Inr (JNum n)"
| "to_primitive (JObj c (SStr s)) = Inr (JStr s)"
| "to_primitive (JObj c (SArr xs)) = sbind (to_str (JObj c (SArr xs))) (\<lambda>s. Inr (JStr s))"
| "to_primitive (JObj c (SProps ps)) = Inr (JStr ''[object Object]'')"
| "to_primitive v = Inr v"

subsection \<open>ToNumber (7.1.4)\<close>

fun to_number :: "jsval \<Rightarrow> jserror + jnum" where
  "to_number JUndefined = Inr JNaN"
| "to_number JNull = Inr (JInt 0)"
| "to_number (JBool b) = Inr (JInt (if b then 1 else 0))"
| "to_number (JNum n) = Inr n"
| "to_number (JStr s) = Inr (string_to_number s)"
| "to_number (JBigInt i) = Inl TypeError"
| "to_number (JSymbol d) = Inl TypeError"
| "to_number (JObj c s) =
     sbind (to_primitive (JObj c s)) (\<lambda>p. case p of
        JBool b \<Rightarrow> Inr (JInt (if b then 1 else 0))
      | JNum n \<Rightarrow> Inr n
      | JStr str \<Rightarrow> Inr (string_to_number str)
      | _ \<Rightarrow> Inl TypeError)"

definition bool_num :: "bool \<Rightarrow> jsval" where
  "bool_num b = JNum (JInt (if b then 1 else 0))"

subsection \<open>Equality (7.2.15 IsStrictlyEqual, 7.2.14 IsLooselyEqual)\<close>

text \<open>Both comparisons return \<open>None\<close> exactly when both operands are objects: JavaScript
  then compares references, which a value model does not have.\<close>

fun num_eq :: "jnum \<Rightarrow> jnum \<Rightarrow> bool" where
  "num_eq (JInt a) (JInt b) = (a = b)"
| "num_eq _ _ = False"

fun num_eq_int :: "jnum \<Rightarrow> int \<Rightarrow> bool" where
  "num_eq_int (JInt a) b = (a = b)"
| "num_eq_int JNaN b = False"

definition strict_eq :: "jsval \<Rightarrow> jsval \<Rightarrow> bool option" where
  "strict_eq x y =
     (if type_of x \<noteq> type_of y then Some False
      else case (x, y) of
        (JNum a, JNum b) \<Rightarrow> Some (num_eq a b)
      | (JObj c s, _) \<Rightarrow> None
      | _ \<Rightarrow> Some (x = y))"

fun eq_rank :: "jsval \<Rightarrow> nat" where
  "eq_rank (JObj c s) = 4"
| "eq_rank (JBool b) = 3"
| "eq_rank (JStr s) = 1"
| "eq_rank v = 0"

lemma to_primitive_rank: "to_primitive v = Inr p \<Longrightarrow> is_object v \<Longrightarrow> eq_rank p \<le> 3"
  by (cases v rule: to_primitive.cases) auto

function loose_eq :: "jsval \<Rightarrow> jsval \<Rightarrow> jserror + bool option" where
  "loose_eq x y =
    (if type_of x = type_of y then Inr (strict_eq x y)
     else if x = JNull \<and> y = JUndefined \<or> x = JUndefined \<and> y = JNull then Inr (Some True)
     else case x of
       JNum n \<Rightarrow> (case y of
           JStr s \<Rightarrow> loose_eq x (JNum (string_to_number s))
         | JBool b \<Rightarrow> loose_eq x (bool_num b)
         | JObj c sl \<Rightarrow> sbind (to_primitive y) (\<lambda>p. loose_eq x p)
         | JBigInt i \<Rightarrow> Inr (Some (num_eq_int n i))
         | _ \<Rightarrow> Inr (Some False))
     | JStr s \<Rightarrow> (case y of
           JNum n \<Rightarrow> loose_eq (JNum (string_to_number s)) y
         | JBigInt i \<Rightarrow> (case parse_int_literal s of
              None \<Rightarrow> Inr (Some False) | Some j \<Rightarrow> loose_eq (JBigInt j) y)
         | JBool b \<Rightarrow> loose_eq x (bool_num b)
         | JObj c sl \<Rightarrow> sbind (to_primitive y) (\<lambda>p. loose_eq x p)
         | _ \<Rightarrow> Inr (Some False))
     | JBigInt i \<Rightarrow> (case y of
           JStr s \<Rightarrow> (case parse_int_literal s of
              None \<Rightarrow> Inr (Some False) | Some j \<Rightarrow> loose_eq x (JBigInt j))
         | JNum n \<Rightarrow> Inr (Some (num_eq_int n i))
         | JBool b \<Rightarrow> loose_eq x (bool_num b)
         | JObj c sl \<Rightarrow> sbind (to_primitive y) (\<lambda>p. loose_eq x p)
         | _ \<Rightarrow> Inr (Some False))
     | JBool b \<Rightarrow> loose_eq (bool_num b) y
     | JSymbol d \<Rightarrow> (case y of
           JBool b \<Rightarrow> loose_eq x (bool_num b)
         | JObj c sl \<Rightarrow> sbind (to_primitive y) (\<lambda>p. loose_eq x p)
         | _ \<Rightarrow> Inr (Some False))
     | JObj c sl \<Rightarrow> (case y of
           JBool b \<Rightarrow> loose_eq x (bool_num b)
         | JUndefined \<Rightarrow> Inr (Some False)
         | JNull \<Rightarrow> Inr (Some False)
         | _ \<Rightarrow> sbind (to_primitive x) (\<lambda>p. loose_eq p y))
     | _ \<Rightarrow> (case y of
           JBool b \<Rightarrow> loose_eq x (bool_num b)
         | _ \<Rightarrow> Inr (Some False)))"
  by pat_completeness auto
termination
  by (relation "measure (\<lambda>(x, y). eq_rank x + eq_rank y)")
     (auto simp: bool_num_def dest!: to_primitive_rank)

subsection \<open>The built-in constructors reached by \<open>super(...)\<close>\<close>

text \<open>ToUint32 (7.1.7) is reduction modulo \<open>2^32\<close>: the value of the integer as a
  32-bit word. The Array constructor (23.1.1.1) called with a single number uses it as a
  length and throws a RangeError unless the number is already a valid length.\<close>

definition to_uint32 :: "int \<Rightarrow> int" where
  "to_uint32 i = uint (word_of_int i :: 32 word)"

fun array_ctor :: "jsval list \<Rightarrow> jserror + jsval option list" where
  "array_ctor [JNum JNaN] = Inl RangeError"
| "array_ctor [JNum (JInt i)] =
     (if to_uint32 i = i then Inr (replicate (nat i) None) else Inl RangeError)"
| "array_ctor args = Inr (map Some args)"

text \<open>The object a derived class's constructor gets from its base built-in when
  \<open>new.target\<close> is the derived class: Boolean (20.3.1.1), Number (21.1.1.1, through
  ToNumeric), String (22.1.1.1, ToString since \<open>new.target\<close> is defined), Array, Object
  (20.1.1.1, which ignores its argument when \<open>new.target\<close> is not Object itself), and
  BigInt and Symbol, which throw when called with \<open>new\<close>.\<close>

definition first_arg :: "jsval list \<Rightarrow> jsval" where
  "first_arg args = (case args of [] \<Rightarrow> JUndefined | a # _ \<Rightarrow> a)"

fun base_construct :: "builtin \<Rightarrow> jsval list \<Rightarrow> jserror + slot" where
  "base_construct BBoolean args = Inr (SBool (to_boolean (first_arg args)))"
| "base_construct BNumber args =
     (if args = [] then Inr (SNum (JInt 0))
      else sbind (to_primitive (first_arg args)) (\<lambda>p. case p of
             JBigInt i \<Rightarrow> Inr (SNum (JInt i))
           | _ \<Rightarrow> sbind (to_number p) (\<lambda>n. Inr (SNum n))))"
| "base_construct BString args =
     (if args = [] then Inr (SStr []) else sbind (to_str (first_arg args)) (\<lambda>s. Inr (SStr s)))"
| "base_construct BArray args = sbind (array_ctor args) (\<lambda>xs. Inr (SArr xs))"
| "base_construct BObject args = Inr (SProps [])"
| "base_construct BBigInt args = Inl TypeError"
| "base_construct BSymbol args = Inl TypeError"

subsection \<open>Property reads\<close>

text \<open>\<open>v[k]\<close> for the own properties the model holds: the properties of a plain object,
  the elements and \<open>length\<close> of an array, the characters and \<open>length\<close> of a string.
  Reading a property of \<open>undefined\<close> or \<open>null\<close> throws a TypeError. Properties
  inherited from a prototype (methods such as \<open>toString\<close>) are functions, which the
  value model leaves out; they read as \<open>undefined\<close>, so only reads of own data
  properties (\<open>length\<close>, indices, a plain object's keys) are faithful.\<close>

definition array_index :: "string \<Rightarrow> nat option" where
  "array_index k =
     (case digits_value k of
        Some i \<Rightarrow> if int_to_dec i = k then Some (nat i) else None
      | None \<Rightarrow> None)"

fun get_prop :: "jsval \<Rightarrow> string \<Rightarrow> jserror + jsval" where
  "get_prop JUndefined k = Inl TypeError"
| "get_prop JNull k = Inl TypeError"
| "get_prop (JObj c (SProps ps)) k = Inr (case map_of ps k of Some v \<Rightarrow> v | None \<Rightarrow> JUndefined)"
| "get_prop (JObj c (SArr xs)) k =
     Inr (if k = ''length'' then JNum (JInt (int (length xs)))
          else case array_index k of
            Some i \<Rightarrow> if i < length xs then (case xs ! i of Some v \<Rightarrow> v | None \<Rightarrow> JUndefined)
                      else JUndefined
          | None \<Rightarrow> JUndefined)"
| "get_prop (JObj c (SStr s)) k = get_prop (JStr s) k"
| "get_prop (JStr s) k =
     Inr (if k = ''length'' then JNum (JInt (int (length s)))
          else case array_index k of
            Some i \<Rightarrow> if i < length s then JStr [s ! i] else JUndefined
          | None \<Rightarrow> JUndefined)"
| "get_prop v k = Inr JUndefined"

subsection \<open>Well-formed values\<close>

text \<open>The invariant every value the program can build satisfies: an object's internal slot
  is the one its base constructor creates, no object has BigInt or Symbol as its base
  (their constructors cannot be called with \<open>new\<close>), and property keys are unique.\<close>

fun slot_fits :: "builtin \<Rightarrow> slot \<Rightarrow> bool" where
  "slot_fits BBoolean (SBool b) = True"
| "slot_fits BNumber (SNum n) = True"
| "slot_fits BString (SStr s) = True"
| "slot_fits BArray (SArr xs) = True"
| "slot_fits BObject (SProps ps) = True"
| "slot_fits b s = False"

function wf_val :: "jsval \<Rightarrow> bool"
  and wf_elems :: "jsval option list \<Rightarrow> bool"
  and wf_props :: "(string \<times> jsval) list \<Rightarrow> bool" where
  "wf_val (JObj c (SArr xs)) = (slot_fits (base_of c) (SArr xs) \<and> wf_elems xs)"
| "wf_val (JObj c (SProps ps)) =
     (slot_fits (base_of c) (SProps ps) \<and> distinct (map fst ps) \<and> wf_props ps)"
| "wf_val (JObj c (SBool b)) = slot_fits (base_of c) (SBool b)"
| "wf_val (JObj c (SNum n)) = slot_fits (base_of c) (SNum n)"
| "wf_val (JObj c (SStr s)) = slot_fits (base_of c) (SStr s)"
| "wf_val JUndefined = True"
| "wf_val JNull = True"
| "wf_val (JBool b) = True"
| "wf_val (JNum n) = True"
| "wf_val (JStr s) = True"
| "wf_val (JBigInt i) = True"
| "wf_val (JSymbol d) = True"
| "wf_elems [] = True"
| "wf_elems (None # xs) = wf_elems xs"
| "wf_elems (Some v # xs) = (wf_val v \<and> wf_elems xs)"
| "wf_props [] = True"
| "wf_props ((k, v) # ps) = (wf_val v \<and> wf_props ps)"
  by pat_completeness auto
termination
  by (relation "measure (case_sum size (case_sum (size_list (size_option size))
                  (size_list (size_prod (\<lambda>_. 0) size))))") auto

subsection \<open>Facts shared by the component theories\<close>

text \<open>ToUint32 leaves exactly the valid array lengths unchanged.\<close>

lemma to_uint32_eq_iff: "to_uint32 i = i \<longleftrightarrow> 0 \<le> i \<and> i < 2 ^ 32"
proof -
  have "to_uint32 i = i mod 2 ^ 32"
    by (simp add: to_uint32_def uint_word_of_int)
  then show ?thesis
    by (auto simp: mod_pos_pos_trivial dest: sym intro: pos_mod_sign pos_mod_bound)
qed

lemma strict_eq_object_primitive:
  "is_object x \<Longrightarrow> \<not> is_object y \<Longrightarrow> strict_eq x y = Some False"
  by (simp add: strict_eq_def)

text \<open>\<open>==\<close> between a wrapper object and a primitive of the same kind compares the
  wrapped primitive.\<close>

lemma loose_eq_boxed_bool: "loose_eq (JObj c (SBool b)) (JBool b') = Inr (Some (b = b'))"
  by (simp add: bool_num_def strict_eq_def)

lemma loose_eq_boxed_num: "loose_eq (JObj c (SNum n)) (JNum m) = Inr (Some (num_eq n m))"
  by (simp add: strict_eq_def)

lemma loose_eq_boxed_str: "loose_eq (JObj c (SStr s)) (JStr t) = Inr (Some (s = t))"
  by (simp add: strict_eq_def)

lemmas loose_eq_boxed [js_simps] = loose_eq_boxed_bool loose_eq_boxed_num loose_eq_boxed_str

text \<open>One step of IsLooselyEqual at a time: a boolean operand becomes a number, and an
  object compared with a string, number, BigInt or symbol becomes a primitive.\<close>

lemma loose_eq_bool_right:
  "type_of x \<noteq> TBoolean \<Longrightarrow> x \<noteq> JUndefined \<Longrightarrow> x \<noteq> JNull \<Longrightarrow>
   loose_eq x (JBool b) = loose_eq x (bool_num b)"
  by (subst loose_eq.simps) (cases x; simp)

lemma loose_eq_bool_left: "loose_eq (JBool b) y =
   (if type_of y = TBoolean then Inr (strict_eq (JBool b) y) else loose_eq (bool_num b) y)"
  by (subst loose_eq.simps) (cases y; simp)

lemma loose_eq_object_left:
  "is_object x \<Longrightarrow> type_of y \<in> {TNumber, TString, TBigInt, TSymbol} \<Longrightarrow>
   loose_eq x y = sbind (to_primitive x) (\<lambda>p. loose_eq p y)"
  by (subst loose_eq.simps) (cases x; cases y; simp)

lemma loose_eq_nullish_right:
  "type_of x \<in> {TBoolean, TNumber, TString, TObject} \<Longrightarrow> y \<in> {JUndefined, JNull} \<Longrightarrow>
   loose_eq x y = Inr (Some False)"
proof -
  assume x: "type_of x \<in> {TBoolean, TNumber, TString, TObject}" and y: "y \<in> {JUndefined, JNull}"
  have num: "loose_eq (JNum n) y = Inr (Some False)" for n
    using y by (subst loose_eq.simps) auto
  show ?thesis
    using x y num by (subst loose_eq.simps) (cases x; auto simp: bool_num_def)
qed

declare loose_eq.simps [simp del]

lemma slot_fits_iff [simp]:
  "slot_fits b (SBool x) \<longleftrightarrow> b = BBoolean"
  "slot_fits b (SNum n) \<longleftrightarrow> b = BNumber"
  "slot_fits b (SStr t) \<longleftrightarrow> b = BString"
  "slot_fits b (SArr xs) \<longleftrightarrow> b = BArray"
  "slot_fits b (SProps ps) \<longleftrightarrow> b = BObject"
  by (cases b; simp)+

end
