(* ===== verification/PrivateValue.thy ===== *)
theory PrivateValue
  imports JsValue
begin

text \<open>
  The privacy wrapper of src/src/routes/_index/+middleware.ts, lines 7--39:
  \<open>makePrivateValue\<close> reads \<open>value.constructor\<close>, declares
  \<open>class PrivateValue extends Constructor\<close> with three hooks (a custom
  \<open>util.inspect\<close> rendering, a \<open>[Symbol.toStringTag]\<close> method and a \<open>toJSON\<close>
  returning \<open>undefined\<close>) and returns \<open>new PrivateValue(...value)\<close> for arrays and
  \<open>new PrivateValue(value)\<close> otherwise; \<open>makePrivate\<close> is the zod transform that
  applies it to every defined parsed value. A PrivateValue instance is the object
  \<open>JObj (PrivateValue C) slot\<close>: its class extends the constructor \<open>C\<close> of the wrapped
  value, and its slot is whatever the base built-in constructor made of the arguments.
\<close>

subsection \<open>The operations\<close>

text \<open>\<open>value.constructor\<close> (line 12) and the \<open>extends\<close> clause that uses it (line 13): the
  constructor a primitive's wrapper prototype or an object's prototype chain names;
  reading it from \<open>undefined\<close> throws. A plain object's own \<open>constructor\<close> property
  shadows the inherited one; its value is a data value (functions are outside the value
  domain), and a class cannot extend a value that is not a constructor: \<open>extends\<close>
  throws a TypeError, and for \<open>null\<close>, which \<open>extends\<close> accepts, the \<open>super\<close> call of
  \<open>new PrivateValue(value)\<close> does.\<close>

fun constructor_of :: "jsval \<Rightarrow> jserror + cls" where
  "constructor_of JUndefined = Inl TypeError"
| "constructor_of JNull = Inl TypeError"
| "constructor_of (JBool b) = Inr (Builtin BBoolean)"
| "constructor_of (JNum n) = Inr (Builtin BNumber)"
| "constructor_of (JStr s) = Inr (Builtin BString)"
| "constructor_of (JBigInt i) = Inr (Builtin BBigInt)"
| "constructor_of (JSymbol d) = Inr (Builtin BSymbol)"
| "constructor_of (JObj c (SProps ps)) =
     (if ''constructor'' \<in> set (map fst ps) then Inl TypeError else Inr c)"
| "constructor_of (JObj c s) = Inr c"

text \<open>\<open>Array.isArray(value)\<close> and the spread \<open>...value\<close> of line 28: iterating an array
  visits every index, a hole giving \<open>undefined\<close>.\<close>

definition spread :: "jsval option list \<Rightarrow> jsval list" where
  "spread xs = map (\<lambda>x. case x of None \<Rightarrow> JUndefined | Some v \<Rightarrow> v) xs"

text \<open>The arguments line 28 passes: \<open>Array.isArray(value) ? ...value : value\<close>.\<close>

fun ctor_args :: "jsval \<Rightarrow> jsval list" where
  "ctor_args (JObj c (SArr xs)) = spread xs"
| "ctor_args v = [v]"

text \<open>\<open>new PrivateValue(...args)\<close> for \<open>class PrivateValue extends C\<close>: the implicit
  derived constructor passes its arguments up the chain to the base built-in, which
  creates the object with \<open>new.target\<close> the new class.\<close>

definition new_private_value :: "cls \<Rightarrow> jsval list \<Rightarrow> jserror + jsval" where
  "new_private_value C args =
     sbind (base_construct (base_of C) args) (\<lambda>s. Inr (JObj (PrivateValue C) s))"

definition makePrivateValue :: "jsval \<Rightarrow> jserror + jsval" where
  "makePrivateValue value =
     (if value = JNull then Inr value
      else sbind (constructor_of value) (\<lambda>C. new_private_value C (ctor_args value)))"

text \<open>The transform \<open>makePrivate\<close> installs (lines 33--38).\<close>

definition private_transform :: "jsval \<Rightarrow> jserror + jsval" where
  "private_transform data = (if data = JUndefined then Inr data else makePrivateValue data)"

subsection \<open>The hooks of class PrivateValue\<close>

text \<open>\<open>this.valueOf()\<close>: the wrapped primitive for wrapper objects (the
  \<open>valueOf\<close> of Boolean, Number and String prototypes), the object itself for arrays
  and plain objects (\<open>Object.prototype.valueOf\<close>).\<close>

fun value_of :: "jsval \<Rightarrow> jsval" where
  "value_of (JObj c (SBool b)) = JBool b"
| "value_of (JObj c (SNum n)) = JNum n"
| "value_of (JObj c (SStr s)) = JStr s"
| "value_of v = v"

text \<open>The custom inspection hook (lines 15--19), given the colouring \<open>util.inspect\<close>
  it calls; \<open>None\<close> is a rendering that does not finish.\<close>

definition inspect_hook :: "(jsval \<Rightarrow> string option) \<Rightarrow> jsval \<Rightarrow> string option" where
  "inspect_hook inspect_colored this =
     map_option (\<lambda>s. ''Private<'' @ s @ ''>'') (inspect_colored (value_of this))"

text \<open>\<open>[Symbol.toStringTag]() { return 'Private'; }\<close> (lines 20--22) defines the
  well-known symbol as a method; the property's value is a function, not a string.\<close>

datatype tag_prop = TagString string | TagMethod string

definition private_to_string_tag :: tag_prop where
  "private_to_string_tag = TagMethod ''Private''"

fun string_tag_of :: "jsval \<Rightarrow> tag_prop option" where
  "string_tag_of (JObj (PrivateValue c) s) = Some private_to_string_tag"
| "string_tag_of v = None"

text \<open>\<open>Object.prototype.toString\<close> (20.1.3.6) uses the tag only when it is a string.\<close>

fun builtin_tag :: "jsval \<Rightarrow> string" where
  "builtin_tag (JObj c (SArr xs)) = ''Array''"
| "builtin_tag (JObj c (SBool b)) = ''Boolean''"
| "builtin_tag (JObj c (SNum n)) = ''Number''"
| "builtin_tag (JObj c (SStr s)) = ''String''"
| "builtin_tag v = ''Object''"

definition object_to_string :: "jsval \<Rightarrow> string" where
  "object_to_string v =
     (if v = JUndefined then ''[object Undefined]''
      else if v = JNull then ''[object Null]''
      else ''[object '' @ (case string_tag_of v of Some (TagString t) \<Rightarrow> t | _ \<Rightarrow> builtin_tag v)
             @ '']'')"

text \<open>\<open>toJSON() { return undefined; }\<close> (lines 24--26).\<close>

definition private_toJSON :: "jsval \<Rightarrow> jsval" where
  "private_toJSON this = JUndefined"

text \<open>\<open>v instanceof PrivateValue\<close> for some PrivateValue class: the objects that carry
  the three hooks of lines 13--27.\<close>

fun is_private_instance :: "jsval \<Rightarrow> bool" where
  "is_private_instance (JObj c s) = is_private_cls c"
| "is_private_instance v = False"

subsection \<open>Evaluation of the wrapper on each kind of value\<close>

lemma new_private_value_Inr_iff:
  "new_private_value C args = Inr w \<longleftrightarrow>
     (\<exists>s. base_construct (base_of C) args = Inr s \<and> w = JObj (PrivateValue C) s)"
  by (auto simp: new_private_value_def)

lemma makePrivateValue_prim [js_simps]:
  "makePrivateValue (JBool b) = Inr (JObj (PrivateValue (Builtin BBoolean)) (SBool b))"
  "makePrivateValue (JNum n) = Inr (JObj (PrivateValue (Builtin BNumber)) (SNum n))"
  "makePrivateValue (JStr s) = Inr (JObj (PrivateValue (Builtin BString)) (SStr s))"
  "makePrivateValue (JBigInt i) = Inl TypeError"
  "makePrivateValue (JSymbol d) = Inl TypeError"
  "makePrivateValue JUndefined = Inl TypeError"
  "makePrivateValue JNull = Inr JNull"
  by (simp_all add: makePrivateValue_def new_private_value_def first_arg_def)

lemma makePrivateValue_array [js_simps]:
  "makePrivateValue (JObj c (SArr xs)) = new_private_value c (spread xs)"
  by (simp add: makePrivateValue_def)

text \<open>A wrapper object (a boxed primitive, or a plain object without an own
  \<open>constructor\<close> key) is passed to its own constructor's base as the single argument.\<close>

lemma makePrivateValue_boxed [js_simps]:
  "makePrivateValue (JObj c (SBool b)) = new_private_value c [JObj c (SBool b)]"
  "makePrivateValue (JObj c (SNum n)) = new_private_value c [JObj c (SNum n)]"
  "makePrivateValue (JObj c (SStr s)) = new_private_value c [JObj c (SStr s)]"
  "makePrivateValue (JObj c (SProps ps)) =
     (if ''constructor'' \<in> set (map fst ps) then Inl TypeError
      else new_private_value c [JObj c (SProps ps)])"
  by (simp_all add: makePrivateValue_def)

lemma base_construct_fits: "base_construct b args = Inr s \<Longrightarrow> slot_fits b s"
  by (cases b) (auto simp: sbind_def split: if_splits sum.splits jsval.splits)

lemma wf_elems_map_Some [wf_intros]: "(\<forall>v \<in> set vs. wf_val v) \<Longrightarrow> wf_elems (map Some vs)"
  by (induction vs) simp_all

lemma wf_elems_replicate_None [wf_intros]: "wf_elems (replicate n None)"
  by (induction n) simp_all

lemma wf_elems_iff: "wf_elems xs \<longleftrightarrow> (\<forall>v. Some v \<in> set xs \<longrightarrow> wf_val v)"
proof (induction xs)
  case (Cons x xs)
  then show ?case by (cases x) auto
qed simp

lemma wf_spread [wf_intros]: "wf_elems xs \<Longrightarrow> \<forall>v \<in> set (spread xs). wf_val v"
  by (auto simp: spread_def wf_elems_iff split: option.splits)

lemma makePrivateValue_Inr_iff:
  "makePrivateValue v = Inr w \<longleftrightarrow>
     v = JNull \<and> w = JNull \<or>
     v \<noteq> JNull \<and> (\<exists>C s. constructor_of v = Inr C \<and>
        base_construct (base_of C) (ctor_args v) = Inr s \<and> w = JObj (PrivateValue C) s)"
  by (auto simp: makePrivateValue_def new_private_value_def)

lemma wf_ctor_args [wf_intros]: "wf_val v \<Longrightarrow> \<forall>a \<in> set (ctor_args v). wf_val a"
  by (cases v rule: ctor_args.cases) (auto dest: wf_spread)

lemma array_ctor_wf [wf_intros]:
  "array_ctor args = Inr xs \<Longrightarrow> \<forall>a \<in> set args. wf_val a \<Longrightarrow> wf_elems xs"
  by (cases args rule: array_ctor.cases) (auto split: if_splits intro: wf_intros)

lemma base_construct_wf [wf_intros]:
  "base_construct (base_of c) args = Inr s \<Longrightarrow> \<forall>a \<in> set args. wf_val a \<Longrightarrow> wf_val (JObj c s)"
  by (cases "base_of c")
     (auto simp: sbind_def split: if_splits sum.splits jsval.splits intro: array_ctor_wf)

lemma wf_val_private [simp]: "wf_val (JObj (PrivateValue c) s) = wf_val (JObj c s)"
  by (cases s) simp_all

lemma array_ctor_not_length:
  "(\<forall>n. args \<noteq> [JNum n]) \<Longrightarrow> array_ctor args = Inr (map Some args)"
  by (cases args rule: array_ctor.cases) auto

lemma spread_singleton_iff: "spread xs = [a] \<longleftrightarrow> xs = [Some a] \<or> xs = [None] \<and> a = JUndefined"
  by (cases xs) (auto simp: spread_def split: option.splits)

lemma loose_eq_same_type: "type_of x = type_of y \<Longrightarrow> loose_eq x y = Inr (strict_eq x y)"
  by (subst loose_eq.simps) simp

subsection \<open>Properties of the wrapper\<close>

lemma PrivateValue_neq [simp]: "PrivateValue c \<noteq> c"
  by (induction c) auto

lemma constructor_of_obj: "constructor_of (JObj c sl) = Inr C \<Longrightarrow> C = c"
  by (cases sl) (auto split: if_splits)

text \<open>C24: the policy for absent values. The transform that \<open>makePrivate\<close> installs
  returns its input unchanged exactly when it is \<open>undefined\<close> or \<open>null\<close>; every other
  value comes back wrapped or throws. \<open>makePrivateValue(undefined)\<close> itself throws a
  TypeError (it reads \<open>undefined.constructor\<close>): only the transform's guard keeps
  \<open>undefined\<close> out of it.\<close>

theorem absent_values_pass_through:
  "(private_transform v = Inr v \<longleftrightarrow> v = JUndefined \<or> v = JNull) \<and>
   makePrivateValue JUndefined = Inl TypeError"
proof -
  have "v = JUndefined \<or> v = JNull" if "private_transform v = Inr v"
  proof (rule ccontr)
    assume "\<not> (v = JUndefined \<or> v = JNull)"
    with that obtain C s where "constructor_of v = Inr C" and v: "v = JObj (PrivateValue C) s"
      by (auto simp: private_transform_def makePrivateValue_Inr_iff)
    then have "C = PrivateValue C" by (auto dest: constructor_of_obj)
    then show False by simp
  qed
  then show ?thesis by (auto simp: private_transform_def js_simps)
qed

text \<open>C15: every other successful wrap is a fresh object of a class
  \<open>PrivateValue extends C\<close>, \<open>C\<close> the wrapped value's constructor, whose internal slot is
  the kind that constructor creates.\<close>

theorem makePrivateValue_private_object:
  assumes "makePrivateValue v = Inr w" and "v \<noteq> JNull"
  shows "\<exists>C s. constructor_of v = Inr C \<and> w = JObj (PrivateValue C) s \<and> slot_fits (base_of C) s"
  using assms by (auto simp: makePrivateValue_Inr_iff dest: base_construct_fits)

theorem makePrivateValue_private_object_witness:
  "makePrivateValue (JNum (JInt 42)) = Inr (JObj (PrivateValue (Builtin BNumber)) (SNum (JInt 42))) \<and>
   constructor_of (JNum (JInt 42)) = Inr (Builtin BNumber)"
  using makePrivateValue_private_object [of "JNum (JInt 42)"] by (simp add: js_simps)

text \<open>Wrapping keeps the value invariant: a well-formed value wraps to a
  well-formed value.\<close>

lemma makePrivateValue_wf:
  assumes "wf_val v" and "makePrivateValue v = Inr w"
  shows "wf_val w"
proof (cases "v = JNull")
  case False
  with assms(2) obtain C s where bc: "base_construct (base_of C) (ctor_args v) = Inr s"
    and w: "w = JObj (PrivateValue C) s"
    by (auto simp: makePrivateValue_Inr_iff)
  have "\<forall>a \<in> set (ctor_args v). wf_val a"
    using assms(1) by (rule wf_ctor_args)
  with bc have "wf_val (JObj C s)"
    by (rule base_construct_wf)
  with w show ?thesis by simp
qed (use assms in \<open>simp add: js_simps\<close>)

text \<open>C9: a wrapped boolean, number or string is loosely equal (\<open>==\<close>) to exactly the
  primitives the original is loosely equal to; in particular the spec's example
  \<open>wrap(false) == false\<close> holds.\<close>

theorem makePrivateValue_loose_eq:
  assumes v: "type_of v \<in> {TBoolean, TNumber, TString}" and y: "\<not> is_object y"
    and w: "makePrivateValue v = Inr w"
  shows "loose_eq w y = loose_eq v y"
proof -
  from v w have ow: "is_object w" and pw: "to_primitive w = Inr v"
    by (cases v; auto simp: js_simps)+
  show ?thesis
  proof (cases y)
    case (JBool b)
    have "loose_eq w y = loose_eq w (bool_num b)"
      unfolding JBool using ow by (intro loose_eq_bool_right) auto
    also have "\<dots> = sbind (to_primitive w) (\<lambda>p. loose_eq p (bool_num b))"
      using ow by (intro loose_eq_object_left) (simp_all add: bool_num_def)
    also have "\<dots> = loose_eq v (bool_num b)"
      using pw by simp
    also have "\<dots> = loose_eq v y"
      using v JBool
      by (cases v) (auto simp: loose_eq_bool_right loose_eq_bool_left loose_eq_same_type
                               strict_eq_def bool_num_def)
    finally show ?thesis .
  next
    case (JObj c sl)
    with y show ?thesis by simp
  qed (use ow pw v in \<open>auto simp: loose_eq_nullish_right loose_eq_object_left\<close>)
qed

theorem makePrivateValue_loose_eq_witness:
  "makePrivateValue (JBool False) = Inr (JObj (PrivateValue (Builtin BBoolean)) (SBool False)) \<and>
   loose_eq (JObj (PrivateValue (Builtin BBoolean)) (SBool False)) (JBool False) = Inr (Some True)"
  using makePrivateValue_loose_eq [of "JBool False" "JBool False"]
  by (simp add: js_simps loose_eq_same_type strict_eq_def)

text \<open>C16: every wrapped value is truthy, so a private \<open>false\<close>, \<open>0\<close> or empty string
  behaves as \<open>true\<close> in a condition, unlike the value it wraps.\<close>

theorem makePrivateValue_truthy:
  assumes "v \<noteq> JNull" and "makePrivateValue v = Inr w"
  shows "to_boolean w"
  using assms by (auto simp: makePrivateValue_Inr_iff)

theorem makePrivateValue_truthy_witness:
  "\<not> to_boolean (JBool False) \<and> to_boolean (JObj (PrivateValue (Builtin BBoolean)) (SBool False))"
  using makePrivateValue_truthy [of "JBool False"] by (simp add: js_simps)

text \<open>C17: a wrapped primitive is never strictly equal (\<open>===\<close>) to the primitive.\<close>

theorem makePrivateValue_not_strict_eq:
  assumes "\<not> is_object v" and "v \<noteq> JNull" and "makePrivateValue v = Inr w"
  shows "strict_eq w v = Some False"
  using assms by (auto simp: makePrivateValue_Inr_iff strict_eq_object_primitive)

theorem makePrivateValue_not_strict_eq_witness:
  "strict_eq (JObj (PrivateValue (Builtin BBoolean)) (SBool False)) (JBool False) = Some False"
  using makePrivateValue_not_strict_eq [of "JBool False"] by (simp add: js_simps)

text \<open>C18: wrapping is not idempotent on booleans: wrapping a wrapped boolean passes the
  wrapper object to the Boolean constructor, which converts any object to \<open>true\<close>; so
  \<open>wrap(wrap(false))\<close> holds \<open>true\<close> and is no longer \<open>== false\<close>.\<close>

theorem makePrivateValue_twice_bool:
  assumes "makePrivateValue (JBool b) = Inr w" and "makePrivateValue w = Inr w'"
  shows "value_of w' = JBool True \<and> loose_eq w' (JBool False) = Inr (Some False)"
  using assms by (auto simp: js_simps new_private_value_def first_arg_def loose_eq_boxed_bool)

theorem makePrivateValue_twice_bool_witness:
  "makePrivateValue (JObj (PrivateValue (Builtin BBoolean)) (SBool False)) =
     Inr (JObj (PrivateValue (PrivateValue (Builtin BBoolean))) (SBool True)) \<and>
   loose_eq (JObj (PrivateValue (PrivateValue (Builtin BBoolean))) (SBool True)) (JBool False)
     = Inr (Some False)"
proof -
  have w2: "makePrivateValue (JObj (PrivateValue (Builtin BBoolean)) (SBool False)) =
     Inr (JObj (PrivateValue (PrivateValue (Builtin BBoolean))) (SBool True))"
    by (simp add: js_simps new_private_value_def first_arg_def)
  from makePrivateValue_twice_bool [OF makePrivateValue_prim(1) [of False] w2]
  show ?thesis using w2 by simp
qed

text \<open>C19: on numbers and strings double wrapping keeps the primitive: the Number and
  String constructors read the inner wrapper through \<open>valueOf\<close> and \<open>toString\<close>.\<close>

theorem makePrivateValue_twice_num_str:
  assumes "type_of v \<in> {TNumber, TString}" and "makePrivateValue v = Inr w"
    and "makePrivateValue w = Inr w'"
  shows "value_of w' = v"
  using assms by (cases v) (auto simp: js_simps new_private_value_def first_arg_def)

theorem makePrivateValue_twice_num_str_witness:
  "makePrivateValue (JObj (PrivateValue (Builtin BNumber)) (SNum (JInt 42))) =
     Inr (JObj (PrivateValue (PrivateValue (Builtin BNumber))) (SNum (JInt 42))) \<and>
   value_of (JObj (PrivateValue (PrivateValue (Builtin BNumber))) (SNum (JInt 42))) = JNum (JInt 42)"
proof -
  have w2: "makePrivateValue (JObj (PrivateValue (Builtin BNumber)) (SNum (JInt 42))) =
     Inr (JObj (PrivateValue (PrivateValue (Builtin BNumber))) (SNum (JInt 42)))"
    by (simp add: js_simps new_private_value_def first_arg_def)
  with makePrivateValue_twice_num_str [of "JNum (JInt 42)"] show ?thesis
    by (simp add: js_simps)
qed

text \<open>C20: a plain object loses all its own properties when wrapped: the Object
  constructor called through \<open>super(value)\<close> with a derived \<open>new.target\<close> ignores its
  argument, so the wrapper has no own property; an object with an own \<open>constructor\<close> key
  cannot be wrapped at all (TypeError).\<close>

theorem makePrivateValue_plain_object:
  assumes "base_of c = BObject"
  shows "makePrivateValue (JObj c (SProps ps)) =
           (if ''constructor'' \<in> set (map fst ps) then Inl TypeError
            else Inr (JObj (PrivateValue c) (SProps [])))"
  using assms by (simp add: js_simps new_private_value_def)

theorem makePrivateValue_plain_object_witness:
  "makePrivateValue (JObj (Builtin BObject) (SProps [(''a'', JNum (JInt 1))])) =
     Inr (JObj (PrivateValue (Builtin BObject)) (SProps [])) \<and>
   makePrivateValue (JObj (Builtin BObject) (SProps [(''constructor'', JNum (JInt 1))])) = Inl TypeError"
  using makePrivateValue_plain_object [of "Builtin BObject" "[(''a'', JNum (JInt 1))]"]
        makePrivateValue_plain_object [of "Builtin BObject" "[(''constructor'', JNum (JInt 1))]"]
  by simp

text \<open>C21: an array holding one number \<open>n\<close> is spread into \<open>new PrivateValue(n)\<close>,
  which the Array constructor reads as a length: the wrapper is an array of \<open>n\<close> holes
  when \<open>0 \<le> n < 2^32\<close> and a RangeError otherwise; the element itself is lost.\<close>

theorem makePrivateValue_array_length:
  assumes "base_of c = BArray"
  shows "makePrivateValue (JObj c (SArr [Some (JNum (JInt n))])) =
           (if 0 \<le> n \<and> n < 2 ^ 32 then Inr (JObj (PrivateValue c) (SArr (replicate (nat n) None)))
            else Inl RangeError)"
  using assms by (simp add: js_simps new_private_value_def spread_def to_uint32_eq_iff)

theorem makePrivateValue_array_length_witness:
  "makePrivateValue (JObj (Builtin BArray) (SArr [Some (JNum (JInt 2))])) =
     Inr (JObj (PrivateValue (Builtin BArray)) (SArr [None, None])) \<and>
   makePrivateValue (JObj (Builtin BArray) (SArr [Some (JNum (JInt (-1)))])) = Inl RangeError"
  using makePrivateValue_array_length [of "Builtin BArray" 2]
        makePrivateValue_array_length [of "Builtin BArray" "-1"]
  by (simp add: numeral_2_eq_2)

text \<open>C22: every other array keeps its elements in order, holes becoming
  \<open>undefined\<close>.\<close>

theorem makePrivateValue_array_elems:
  assumes "base_of c = BArray" and "\<forall>n. xs \<noteq> [Some (JNum n)]"
  shows "makePrivateValue (JObj c (SArr xs)) = Inr (JObj (PrivateValue c) (SArr (map Some (spread xs))))"
proof -
  have "\<forall>n. spread xs \<noteq> [JNum n]"
    using assms(2) by (simp add: spread_singleton_iff)
  then show ?thesis
    using assms(1) by (simp add: js_simps new_private_value_def array_ctor_not_length)
qed

theorem makePrivateValue_array_elems_witness:
  "makePrivateValue (JObj (Builtin BArray) (SArr [Some (JNum (JInt 1)), None])) =
     Inr (JObj (PrivateValue (Builtin BArray)) (SArr [Some (JNum (JInt 1)), Some JUndefined]))"
  using makePrivateValue_array_elems [of "Builtin BArray" "[Some (JNum (JInt 1)), None]"]
  by (simp add: spread_def)

text \<open>C23: the only exceptions \<open>makePrivateValue\<close> raises on a well-formed value are a
  TypeError for \<open>undefined\<close>, BigInts and symbols (whose constructors cannot be called
  with \<open>new\<close>) and for a plain object with an own \<open>constructor\<close> key (which the class
  cannot extend), and a RangeError for an array holding one number that is not a valid
  length.\<close>

theorem makePrivateValue_Inl:
  assumes "wf_val v" and "makePrivateValue v = Inl e"
  shows "e = TypeError \<and> (v = JUndefined \<or> type_of v \<in> {TBigInt, TSymbol} \<or>
                          (\<exists>c ps. v = JObj c (SProps ps) \<and> ''constructor'' \<in> set (map fst ps))) \<or>
         e = RangeError \<and> (\<exists>c n. v = JObj c (SArr [Some (JNum n)]) \<and>
                              \<not> (\<exists>i. n = JInt i \<and> 0 \<le> i \<and> i < 2 ^ 32))"
proof (cases v)
  case (JObj c sl)
  show ?thesis
  proof (cases sl)
    case (SArr xs)
    with assms JObj have "array_ctor (spread xs) = Inl e"
      by (cases "base_of c") (simp_all add: js_simps new_private_value_def sbind_eq_Inl_iff)
    then obtain n where "spread xs = [JNum n]" and "e = RangeError"
      and "\<not> (\<exists>i. n = JInt i \<and> 0 \<le> i \<and> i < 2 ^ 32)"
      by (cases "spread xs" rule: array_ctor.cases) (auto simp: to_uint32_eq_iff split: if_splits)
    with JObj SArr show ?thesis by (auto simp: spread_singleton_iff)
  qed (use assms JObj in \<open>auto simp: js_simps new_private_value_def first_arg_def split: if_splits\<close>)
qed (use assms in \<open>auto simp: js_simps\<close>)

theorem makePrivateValue_Inl_witness:
  "makePrivateValue (JObj (Builtin BObject) (SProps [(''constructor'', JNum (JInt 1))])) = Inl TypeError \<and>
   (\<exists>c ps. JObj (Builtin BObject) (SProps [(''constructor'', JNum (JInt 1))]) = JObj c (SProps ps) \<and>
           ''constructor'' \<in> set (map fst ps))"
  using makePrivateValue_Inl [of "JObj (Builtin BObject) (SProps [(''constructor'', JNum (JInt 1))])" TypeError]
  by (simp add: js_simps)

text \<open>C25: the \<open>[Symbol.toStringTag]\<close> override has no effect: because it is a method
  and not a string, \<open>Object.prototype.toString\<close> reports a wrapped value by its built-in
  tag (\<open>[object Boolean]\<close>, \<open>[object Array]\<close>, ...), never as
  \<open>[object Private]\<close>.\<close>

theorem makePrivateValue_tag_ignored:
  assumes "v \<noteq> JNull" and "makePrivateValue v = Inr w"
  shows "object_to_string w = ''[object '' @ builtin_tag w @ '']'' \<and>
         object_to_string w \<noteq> ''[object Private]''"
proof -
  from assms obtain C s where w: "w = JObj (PrivateValue C) s"
    by (auto simp: makePrivateValue_Inr_iff)
  then show ?thesis
    by (cases s) (simp_all add: object_to_string_def private_to_string_tag_def)
qed

theorem makePrivateValue_tag_ignored_witness:
  "object_to_string (JObj (PrivateValue (Builtin BBoolean)) (SBool False)) = ''[object Boolean]''"
  using makePrivateValue_tag_ignored [of "JBool False"] by (simp add: js_simps)

text \<open>C13: wrapping a boolean, number or string and reading the wrapper back, by
  \<open>valueOf()\<close> or by ToPrimitive (what \<open>==\<close>, arithmetic and template strings do),
  gives back the value that was wrapped.\<close>

theorem makePrivateValue_unwrap:
  assumes "type_of v \<in> {TBoolean, TNumber, TString}"
  shows "\<exists>w. makePrivateValue v = Inr w \<and> value_of w = v \<and> to_primitive w = Inr v"
  using assms by (cases v) (simp_all add: js_simps)

theorem makePrivateValue_unwrap_witness:
  "value_of (JObj (PrivateValue (Builtin BNumber)) (SNum (JInt 42))) = JNum (JInt 42) \<and>
   to_primitive (JObj (PrivateValue (Builtin BNumber)) (SNum (JInt 42))) = Inr (JNum (JInt 42))"
  using makePrivateValue_unwrap [of "JNum (JInt 42)"] by (simp add: js_simps)

lemma get_prop_spread: "get_prop (JObj c' (SArr (map Some (spread xs)))) k = get_prop (JObj c (SArr xs)) k"
  by (auto simp: spread_def split: option.splits)

text \<open>C10: the wrapper's own data properties read as the original's: for every
  well-formed value other than a plain object or an array holding a single number,
  \<open>length\<close> and every index read the same on the wrapper as on the original (the
  model's property reads cover own data properties; the methods the class adds, such as
  \<open>toJSON\<close>, are not values of the model).\<close>

theorem makePrivateValue_get_prop:
  assumes "wf_val v" and "makePrivateValue v = Inr w"
    and "\<forall>c ps. v \<noteq> JObj c (SProps ps)" and "\<forall>c n. v \<noteq> JObj c (SArr [Some (JNum n)])"
    and "k = ''length'' \<or> array_index k \<noteq> None"
  shows "get_prop w k = get_prop v k"
proof (cases v)
  case (JObj c sl)
  then show ?thesis
  proof (cases sl)
    case (SArr xs)
    with JObj assms have "\<forall>n. spread xs \<noteq> [JNum n]" by (auto simp: spread_singleton_iff)
    with JObj SArr assms have "w = JObj (PrivateValue c) (SArr (map Some (spread xs)))"
      by (auto simp: js_simps new_private_value_def array_ctor_not_length)
    then show ?thesis unfolding JObj SArr by (simp only: get_prop_spread)
  qed (use JObj assms in \<open>auto simp: js_simps new_private_value_def first_arg_def\<close>)
qed (use assms in \<open>auto simp: js_simps\<close>)

theorem makePrivateValue_get_prop_witness:
  "get_prop (JObj (PrivateValue (Builtin BString)) (SStr ''abc'')) ''length'' = Inr (JNum (JInt 3))"
  using makePrivateValue_get_prop [of "JStr ''abc''" "JObj (PrivateValue (Builtin BString)) (SStr ''abc'')" "''length''"]
  by (simp add: js_simps)

end
