(* ===== verification/Zod.thy ===== *)
theory Zod
  imports PrivateValue
begin

text \<open>
  Schemas and validation. The source builds its schema with the zod library (version 3:
  the code uses \<open>z.ZodTypeDef\<close>): \<open>z.string()\<close>, \<open>z.number()\<close>, \<open>z.boolean()\<close>,
  \<open>z.object(shape)\<close> and \<open>.transform(f)\<close>, and validates with \<open>schema.parse\<close>. The library
  is not part of the repository; its synchronous parser is modelled here as zod 3
  documents and implements it: a base type checks \<open>getParsedType\<close> of the input, an
  object parses every field of its shape (reading \<open>input[key]\<close>) and collects the issues
  of all fields, each under its key's path, drops the keys the shape does not name, and a
  transform runs only on a valid value, an exception it throws escaping \<open>parse\<close>
  unchanged. \<open>makePrivate\<close>, \<open>UserSchema\<close> and \<open>data\<close> are the repository's code
  (lines 32--51).
\<close>

subsection \<open>The library\<close>

datatype zod_type =
    ZtString | ZtNumber | ZtNaN | ZtBoolean | ZtBigInt | ZtSymbol | ZtUndefined | ZtNull
  | ZtArray | ZtObject

datatype issue_code = InvalidType zod_type zod_type

type_synonym zod_issue = "string list \<times> issue_code"

datatype schema =
    ZString
  | ZNumber
  | ZBoolean
  | ZObject "(string \<times> schema) list"
  | ZEffects schema "jsval \<Rightarrow> jserror + jsval"

text \<open>\<open>getParsedType\<close>: NaN is its own type; arrays are told apart from other objects.\<close>

fun parsed_type :: "jsval \<Rightarrow> zod_type" where
  "parsed_type JUndefined = ZtUndefined"
| "parsed_type JNull = ZtNull"
| "parsed_type (JBool b) = ZtBoolean"
| "parsed_type (JNum JNaN) = ZtNaN"
| "parsed_type (JNum (JInt i)) = ZtNumber"
| "parsed_type (JStr s) = ZtString"
| "parsed_type (JBigInt i) = ZtBigInt"
| "parsed_type (JSymbol d) = ZtSymbol"
| "parsed_type (JObj c (SArr xs)) = ZtArray"
| "parsed_type (JObj c s) = ZtObject"

text \<open>\<open>key in input\<close>, which decides whether a field whose parsed value is
  \<open>undefined\<close> is written to the output.\<close>

fun has_key :: "jsval \<Rightarrow> string \<Rightarrow> bool" where
  "has_key (JObj c (SProps ps)) k = (k \<in> set (map fst ps))"
| "has_key v k = (get_prop v k \<noteq> Inr JUndefined)"

definition check_type :: "zod_type \<Rightarrow> string list \<Rightarrow> jsval \<Rightarrow> zod_issue list \<times> jsval option" where
  "check_type t path v =
     (if parsed_type v = t then ([], Some v) else ([(path, InvalidType t (parsed_type v))], None))"

text \<open>\<open>parse_at s path v\<close>: the issues the parse adds to the context and the value, \<open>None\<close>
  when the status is not valid; \<open>Inl\<close> is an exception thrown by a transform.\<close>

fun parse_at :: "schema \<Rightarrow> string list \<Rightarrow> jsval \<Rightarrow> jserror + zod_issue list \<times> jsval option"
  and parse_fields :: "(string \<times> schema) list \<Rightarrow> string list \<Rightarrow> jsval \<Rightarrow>
                       jserror + zod_issue list \<times> (string \<times> jsval) list option" where
  "parse_at ZString path v = Inr (check_type ZtString path v)"
| "parse_at ZNumber path v = Inr (check_type ZtNumber path v)"
| "parse_at ZBoolean path v = Inr (check_type ZtBoolean path v)"
| "parse_at (ZObject shape) path v =
     (if parsed_type v \<noteq> ZtObject then Inr ([(path, InvalidType ZtObject (parsed_type v))], None)
      else sbind (parse_fields shape path v) (\<lambda>(iss, r).
        Inr (iss, map_option (\<lambda>ps. JObj (Builtin BObject) (SProps ps)) r)))"
| "parse_at (ZEffects s f) path v =
     sbind (parse_at s path v) (\<lambda>(iss, r). case r of
        None \<Rightarrow> Inr (iss, None)
      | Some x \<Rightarrow> sbind (f x) (\<lambda>y. Inr (iss, Some y)))"
| "parse_fields [] path v = Inr ([], Some [])"
| "parse_fields ((k, s) # shape) path v =
     sbind (get_prop v k) (\<lambda>x.
     sbind (parse_at s (path @ [k]) x) (\<lambda>(is1, r1).
     sbind (parse_fields shape path v) (\<lambda>(is2, r2).
       Inr (is1 @ is2, case (r1, r2) of
          (Some y, Some ps) \<Rightarrow>
             Some (if k \<noteq> ''__proto__'' \<and> (y \<noteq> JUndefined \<or> has_key v k) then (k, y) # ps else ps)
        | _ \<Rightarrow> None))))"

text \<open>What \<open>schema.parse(input)\<close> returns or throws: the value when the status is valid,
  otherwise a ZodError carrying every issue; an exception of a transform passes through.\<close>

datatype thrown = ThrownZod "zod_issue list" | ThrownJs jserror

definition zod_parse :: "schema \<Rightarrow> jsval \<Rightarrow> thrown + jsval" where
  "zod_parse s v =
     (case parse_at s [] v of
        Inl e \<Rightarrow> Inl (ThrownJs e)
      | Inr (iss, Some x) \<Rightarrow> Inr x
      | Inr (iss, None) \<Rightarrow> Inl (ThrownZod iss))"

subsection \<open>The repository's schemas\<close>

definition makePrivate :: "schema \<Rightarrow> schema" where
  "makePrivate schema = ZEffects schema private_transform"

definition data :: jsval where
  "data = JObj (Builtin BObject) (SProps
     [(''name'', JStr ''John Doe''), (''age'', JNum (JInt 42)), (''super_secret_property'', JBool False)])"

definition UserSchema :: schema where
  "UserSchema = ZObject
     [(''name'', ZString), (''age'', ZNumber), (''super_secret_property'', makePrivate ZBoolean)]"

subsection \<open>The parser's invariants\<close>

text \<open>A schema the parser can be trusted on: object keys are unique and every transform
  maps well-formed values to well-formed values.\<close>

fun schema_ok :: "schema \<Rightarrow> bool" where
  "schema_ok (ZObject shape) = (distinct (map fst shape) \<and> (\<forall>(k, s) \<in> set shape. schema_ok s))"
| "schema_ok (ZEffects s f) = (schema_ok s \<and> (\<forall>x y. wf_val x \<longrightarrow> f x = Inr y \<longrightarrow> wf_val y))"
| "schema_ok s = True"

lemma check_type_valid: "check_type t path v = (iss, r) \<Longrightarrow> (r = None \<longleftrightarrow> iss \<noteq> [])"
  by (auto simp: check_type_def split: if_splits)

lemma check_type_paths: "check_type t path v = (iss, r) \<Longrightarrow> \<forall>(p, c) \<in> set iss. p = path"
  by (auto simp: check_type_def split: if_splits)

text \<open>The status is valid exactly when the parse added no issue, and every issue lies
  under the path the parse started at.\<close>

lemma parse_valid_paths:
  "parse_at s path v = Inr (iss, r) \<Longrightarrow>
     (r = None \<longleftrightarrow> iss \<noteq> []) \<and> (\<forall>(p, c) \<in> set iss. \<exists>q. p = path @ q)"
  "parse_fields shape path v = Inr (iss, rs) \<Longrightarrow>
     (rs = None \<longleftrightarrow> iss \<noteq> []) \<and> (\<forall>(p, c) \<in> set iss. \<exists>q. p = path @ q)"
proof (induction s path v and shape path v arbitrary: iss r and iss rs rule: parse_at_parse_fields.induct)
  case (1 path v) then show ?case by (force dest: check_type_valid check_type_paths)
next
  case (2 path v) then show ?case by (force dest: check_type_valid check_type_paths)
next
  case (3 path v) then show ?case by (force dest: check_type_valid check_type_paths)
next
  case (4 shape path v)
  then show ?case by (auto split: if_splits prod.splits)
next
  case (5 s f path v)
  then show ?case by (auto split: prod.splits option.splits)
next
  case (6 path v) then show ?case by auto
next
  case (7 k s shape path v)
  from "7.prems" obtain x is1 r1 is2 r2 where
    x: "get_prop v k = Inr x" and p1: "parse_at s (path @ [k]) x = Inr (is1, r1)"
    and p2: "parse_fields shape path v = Inr (is2, r2)"
    and iss: "iss = is1 @ is2"
    and rs: "rs = (case (r1, r2) of (Some y, Some ps) \<Rightarrow>
             Some (if k \<noteq> ''__proto__'' \<and> (y \<noteq> JUndefined \<or> has_key v k) then (k, y) # ps else ps)
           | _ \<Rightarrow> None)"
    by (auto split: prod.splits)
  from "7.IH"(1) [OF x p1] have h1: "(r1 = None \<longleftrightarrow> is1 \<noteq> []) \<and>
      (\<forall>(p, c) \<in> set is1. \<exists>q. p = (path @ [k]) @ q)" .
  from "7.IH"(2) [OF x p1 refl p2] have h2: "(r2 = None \<longleftrightarrow> is2 \<noteq> []) \<and>
      (\<forall>(p, c) \<in> set is2. \<exists>q. p = path @ q)" .
  from h1 h2 iss rs show ?case by (auto split: option.splits)
qed

lemma wf_props_iff: "wf_props ps \<longleftrightarrow> (\<forall>(k, v) \<in> set ps. wf_val v)"
  by (induction ps) auto

lemma get_prop_wf [wf_intros]: "wf_val v \<Longrightarrow> get_prop v k = Inr x \<Longrightarrow> wf_val x"
  by (induction v k rule: get_prop.induct)
     (auto simp: wf_props_iff wf_elems_iff dest: map_of_SomeD dest!: nth_mem
           split: option.splits if_splits)

lemma parse_wf:
  "parse_at s path v = Inr (iss, Some x) \<Longrightarrow> wf_val v \<Longrightarrow> schema_ok s \<Longrightarrow> wf_val x"
  "parse_fields shape path v = Inr (iss, Some ps) \<Longrightarrow> wf_val v \<Longrightarrow>
     (\<forall>(k, s) \<in> set shape. schema_ok s) \<Longrightarrow> distinct (map fst shape) \<Longrightarrow>
     wf_props ps \<and> set (map fst ps) \<subseteq> set (map fst shape) \<and> distinct (map fst ps)"
proof (induction s path v and shape path v arbitrary: iss x and iss ps rule: parse_at_parse_fields.induct)
  case (4 shape path v)
  then show ?case by (fastforce split: if_splits prod.splits)
next
  case (5 s f path v)
  then show ?case by (auto split: prod.splits option.splits)
next
  case (7 k s shape path v)
  from "7.prems"(1) obtain y is1 r1 is2 r2 where
    y: "get_prop v k = Inr y" and p1: "parse_at s (path @ [k]) y = Inr (is1, r1)"
    and p2: "parse_fields shape path v = Inr (is2, r2)"
    and ps: "Some ps = (case (r1, r2) of (Some z, Some qs) \<Rightarrow>
             Some (if k \<noteq> ''__proto__'' \<and> (z \<noteq> JUndefined \<or> has_key v k) then (k, z) # qs else qs)
           | _ \<Rightarrow> None)"
    by (auto split: prod.splits)
  from ps obtain z qs where r1: "r1 = Some z" and r2: "r2 = Some qs"
    by (auto split: option.splits)
  have "wf_val y" using "7.prems"(2) y by (rule get_prop_wf)
  with "7.IH"(1) [OF y p1 [unfolded r1]] "7.prems"(3) have "wf_val z" by auto
  moreover have "wf_props qs \<and> set (map fst qs) \<subseteq> set (map fst shape) \<and> distinct (map fst qs)"
    using "7.IH"(2) [OF y p1 refl p2 [unfolded r2]] "7.prems"(2-4) by auto
  moreover have "k \<notin> set (map fst shape)" using "7.prems"(4) by simp
  ultimately show ?case using ps r1 r2 by auto
qed (auto simp: check_type_def split: if_splits)

lemma parse_fields_same_keys:
  "(\<forall>k \<in> set (map fst shape). map_of ps k = map_of ps' k) \<Longrightarrow>
   parse_fields shape path (JObj c (SProps ps)) = parse_fields shape path (JObj c' (SProps ps'))"
proof (induction shape)
  case (Cons ks shape)
  obtain k s where ks: "ks = (k, s)" by fastforce
  from Cons.prems ks have "map_of ps k = map_of ps' k" by simp
  then have hk: "has_key (JObj c (SProps ps)) k = has_key (JObj c' (SProps ps')) k"
    by (metis has_key.simps(1) list.set_map map_of_eq_None_iff)
  from Cons have IH: "parse_fields shape path (JObj c (SProps ps)) =
      parse_fields shape path (JObj c' (SProps ps'))" by simp
  show ?case unfolding ks
    by (simp add: IH \<open>map_of ps k = map_of ps' k\<close> del: has_key.simps) (subst hk, rule refl)
qed simp

subsection \<open>Properties of validation\<close>

text \<open>An object schema parses every field of its shape, in order, reading the field
  from the input, exactly as parsing each field on its own would; the issues of the whole
  parse are the issues of all the fields (not only the first), and the result is valid
  exactly when every field is.\<close>

lemma parse_object_aggregates:
  assumes "parsed_type v = ZtObject" and "parse_at (ZObject shape) path v = Inr (iss, r)"
  shows "\<exists>fr. smap (\<lambda>(k, s). sbind (get_prop v k) (parse_at s (path @ [k]))) shape = Inr fr \<and>
              iss = concat (map fst fr) \<and> (r \<noteq> None \<longleftrightarrow> (\<forall>p \<in> set fr. snd p \<noteq> None))"
proof -
  from assms obtain rs where pf: "parse_fields shape path v = Inr (iss, rs)"
    and r: "r = map_option (\<lambda>ps. JObj (Builtin BObject) (SProps ps)) rs"
    by (auto split: prod.splits)
  have "\<exists>fr. smap (\<lambda>(k, s). sbind (get_prop v k) (parse_at s (path @ [k]))) shape = Inr fr \<and>
              iss = concat (map fst fr) \<and> (rs \<noteq> None \<longleftrightarrow> (\<forall>p \<in> set fr. snd p \<noteq> None))"
    if "parse_fields shape path v = Inr (iss, rs)" for iss rs
    using that
  proof (induction shape arbitrary: iss rs)
    case (Cons ks shape)
    obtain k s where ks: "ks = (k, s)" by fastforce
    from Cons.prems ks obtain x is1 r1 is2 r2 where
      x: "get_prop v k = Inr x" and p1: "parse_at s (path @ [k]) x = Inr (is1, r1)"
      and p2: "parse_fields shape path v = Inr (is2, r2)" and iss: "iss = is1 @ is2"
      and rs: "rs = (case (r1, r2) of (Some y, Some ps) \<Rightarrow>
             Some (if k \<noteq> ''__proto__'' \<and> (y \<noteq> JUndefined \<or> has_key v k) then (k, y) # ps else ps)
           | _ \<Rightarrow> None)"
      by (auto split: prod.splits)
    from Cons.IH [OF p2] obtain fr where
      fr: "smap (\<lambda>(k, s). sbind (get_prop v k) (parse_at s (path @ [k]))) shape = Inr fr"
      and "is2 = concat (map fst fr)" and "(r2 \<noteq> None \<longleftrightarrow> (\<forall>p \<in> set fr. snd p \<noteq> None))"
      by blast
    with x p1 iss rs ks show ?case
      by (intro exI [of _ "(is1, r1) # fr"]) (auto split: option.splits)
  qed simp
  with pf r show ?thesis by simp
qed

text \<open>The record the program's schema makes of the program's data.\<close>

definition user_record :: jsval where
  "user_record = JObj (Builtin BObject) (SProps
     [(''name'', JStr ''John Doe''), (''age'', JNum (JInt 42)),
      (''super_secret_property'', JObj (PrivateValue (Builtin BBoolean)) (SBool False))])"

lemma parse_UserSchema_data: "zod_parse UserSchema data = Inr user_record"
  by (simp add: zod_parse_def UserSchema_def data_def makePrivate_def check_type_def
                private_transform_def user_record_def js_simps)

text \<open>C7: a record whose \<open>age\<close> is not a number is rejected with a ZodError whose only
  issue is at path \<open>['age']\<close>: the valid \<open>name\<close> and \<open>super_secret_property\<close> are not
  reported.\<close>

theorem UserSchema_rejects_age:
  assumes "parsed_type a \<noteq> ZtNumber"
  shows "zod_parse UserSchema (JObj c (SProps
           [(''name'', JStr n), (''age'', a), (''super_secret_property'', JBool b)])) =
         Inl (ThrownZod [([''age''], InvalidType ZtNumber (parsed_type a))])"
proof -
  have "parsed_type (JObj c (SProps ps)) = ZtObject" for ps by (cases c) simp_all
  with assms show ?thesis
    by (simp add: zod_parse_def UserSchema_def makePrivate_def check_type_def
                  private_transform_def js_simps)
qed

theorem UserSchema_rejects_age_witness:
  "zod_parse UserSchema (JObj (Builtin BObject) (SProps
     [(''name'', JStr ''John Doe''), (''age'', JStr ''not a number''), (''super_secret_property'', JBool False)])) =
   Inl (ThrownZod [([''age''], InvalidType ZtNumber ZtString)])"
  using UserSchema_rejects_age [of "JStr ''not a number''" "Builtin BObject" "''John Doe''" False] by simp

text \<open>Keys of the input that the shape does not name are ignored.\<close>

lemma parse_object_ignores_extra_keys:
  assumes "\<forall>k \<in> set (map fst shape). map_of ps k = map_of ps' k"
  shows "parse_at (ZObject shape) path (JObj c (SProps ps)) = parse_at (ZObject shape) path (JObj c' (SProps ps'))"
proof -
  have "parsed_type (JObj c (SProps ps)) = ZtObject" "parsed_type (JObj c' (SProps ps')) = ZtObject"
    by (cases c; simp) (cases c'; simp)
  with parse_fields_same_keys [OF assms, of path c c'] show ?thesis by simp
qed

lemma schema_ok_UserSchema: "schema_ok UserSchema"
  by (auto simp: UserSchema_def makePrivate_def private_transform_def intro: makePrivateValue_wf)

text \<open>Validation keeps the value invariant: on a schema with unique keys whose
  transforms keep it, a well-formed input parses to a well-formed value.\<close>

lemma zod_parse_wf:
  assumes "wf_val v" and "schema_ok s" and "zod_parse s v = Inr x"
  shows "wf_val x"
  using assms parse_wf(1) by (auto simp: zod_parse_def split: sum.splits option.splits)

text \<open>A ZodError is never empty: validation fails only with at least one issue.\<close>

lemma zod_error_nonempty:
  assumes "zod_parse s v = Inl (ThrownZod iss)"
  shows "iss \<noteq> []"
  using assms parse_valid_paths(1) [of s "[]" v]
  by (auto simp: zod_parse_def split: sum.splits option.splits)

lemma parsed_type_object: "parsed_type (JObj c (SProps ps)) = ZtObject"
  by (cases c) simp_all

lemma parsed_type_boolean: "parsed_type b = ZtBoolean \<longleftrightarrow> (\<exists>x. b = JBool x)"
  by (cases b rule: parsed_type.cases) simp_all

text \<open>C8: the user schema on a record with its three keys: the ZodError lists the issues
  of every failing field, in the shape's order, each at its own key; when there is none,
  the result has the three fields, \<open>super_secret_property\<close> wrapped.\<close>

theorem UserSchema_parse:
  "zod_parse UserSchema (JObj c (SProps [(''name'', n), (''age'', a), (''super_secret_property'', b)])) =
     (let iss = fst (check_type ZtString [''name''] n) @ fst (check_type ZtNumber [''age''] a) @
                fst (check_type ZtBoolean [''super_secret_property''] b)
      in if iss = [] then Inr (JObj (Builtin BObject) (SProps
              [(''name'', n), (''age'', a),
               (''super_secret_property'', JObj (PrivateValue (Builtin BBoolean)) (SBool (b = JBool True)))]))
         else Inl (ThrownZod iss))"
  by (cases "parsed_type b = ZtBoolean")
     (auto simp: zod_parse_def UserSchema_def makePrivate_def check_type_def private_transform_def
        parsed_type_object parsed_type_boolean js_simps Let_def)

end
