(* ===== verification/Query.thy ===== *)
theory Query
  imports Zod
begin

text \<open>
  The deferred query (\<open>class DatabaseQuery\<close>, lines 53--85, and the driver \<open>db\<close>, lines
  88--92). A query is an immutable record of its file name, a reference to its parameter
  object and its schema field, which may hold any value. \<open>into\<close> builds a new query
  sharing the file name and the parameter reference. \<open>fetch\<close> is an \<open>async\<close> method: it
  suspends once at \<open>await data\<close> and then parses the module's constant \<open>data\<close> with the
  schema when the schema is a zod schema; \<open>then\<close> calls \<open>fetch\<close> afresh on every call. An
  \<open>await q\<close> calls \<open>q.then\<close> once, from a job of the microtask queue.

  Concurrent awaits are modelled by the step relation \<open>sched_step\<close> on a scheduler state
  holding the awaits issued so far and every \<open>fetch\<close> invocation started. Its steps are
  the microtasks of the ECMAScript await protocol (the job calling \<open>then\<close>, the
  resumption of \<open>fetch\<close> after \<open>await data\<close>, and the settlement reaching the awaiting
  code); any enabled step may run next, which covers the FIFO order of the queue and
  every order of the awaits' issuing code.
\<close>

subsection \<open>Queries and the driver\<close>

type_synonym addr = nat

text \<open>The value of the \<open>schema\<close> field: a zod schema or any other JavaScript value
  (\<open>undefined\<close> when the constructor got none).\<close>

datatype schema_val = ZodSchema schema | OtherVal jsval

record DatabaseQuery =
  fileName :: string
  params :: addr
  schema :: schema_val

text \<open>The heap of parameter objects: an object's address is its index, and allocation
  appends.\<close>

type_synonym heap = "(string \<times> jsval) list list"

definition new_DatabaseQuery :: "string \<Rightarrow> addr \<Rightarrow> schema_val \<Rightarrow> DatabaseQuery" where
  "new_DatabaseQuery f p s = \<lparr>fileName = f, params = p, schema = s\<rparr>"

definition into :: "DatabaseQuery \<Rightarrow> schema_val \<Rightarrow> DatabaseQuery" where
  "into q s = new_DatabaseQuery (fileName q) (params q) s"

text \<open>\<open>db.file(fileName, params = {})\<close>: an omitted parameter object is a fresh empty object.\<close>

definition db_file :: "string \<Rightarrow> addr option \<Rightarrow> heap \<Rightarrow> DatabaseQuery \<times> heap" where
  "db_file f p h =
     (case p of
        Some a \<Rightarrow> (new_DatabaseQuery f a (OtherVal JUndefined), h)
      | None \<Rightarrow> (new_DatabaseQuery f (length h) (OtherVal JUndefined), h @ [[]]))"

text \<open>The test \<open>this.schema && this.schema instanceof z.ZodType\<close>: a zod schema is an
  object, hence truthy; no other value is an instance of \<open>ZodType\<close>.\<close>

fun schema_truthy :: "schema_val \<Rightarrow> bool" where
  "schema_truthy (ZodSchema z) = True"
| "schema_truthy (OtherVal v) = to_boolean v"

fun is_ZodType :: "schema_val \<Rightarrow> bool" where
  "is_ZodType (ZodSchema z) = True"
| "is_ZodType (OtherVal v) = False"

text \<open>\<open>this.schema.parse(result)\<close>: a value that is not a zod schema has no \<open>parse\<close>
  method, and calling \<open>undefined\<close> throws a TypeError.\<close>

fun schema_parse :: "schema_val \<Rightarrow> jsval \<Rightarrow> thrown + jsval" where
  "schema_parse (ZodSchema z) v = zod_parse z v"
| "schema_parse (OtherVal s) v = Inl (ThrownJs TypeError)"

text \<open>The outcome of one \<open>fetch()\<close> after its \<open>await data\<close>: the fulfilment value or the
  rejection reason of the promise it returns.\<close>

definition fetch_result :: "DatabaseQuery \<Rightarrow> thrown + jsval" where
  "fetch_result q =
     (let result = data in
      if schema_truthy (schema q) \<and> is_ZodType (schema q) then schema_parse (schema q) result
      else Inr result)"

text \<open>A single \<open>await q\<close> run to completion: \<open>then\<close> calls \<open>fetch\<close> once, recorded in the
  log of fetch invocations, and the await observes that fetch's outcome.\<close>

definition query_then :: "DatabaseQuery \<Rightarrow> DatabaseQuery list \<Rightarrow> DatabaseQuery list \<times> (thrown + jsval)" where
  "query_then q log = (log @ [q], fetch_result q)"

subsection \<open>Concurrent awaits\<close>

datatype fetch_state = FetchSuspended DatabaseQuery | FetchDone "thrown + jsval"

datatype await_state =
    AwaitQueued DatabaseQuery
  | AwaitOn DatabaseQuery nat
  | AwaitSettled DatabaseQuery nat "thrown + jsval"

record sched =
  awaits :: "await_state list"
  fetches :: "fetch_state list"

definition sched_init :: sched where
  "sched_init = \<lparr>awaits = [], fetches = []\<rparr>"

inductive sched_step :: "sched \<Rightarrow> sched \<Rightarrow> bool" where
  await_start:
    "sched_step s (s\<lparr>awaits := awaits s @ [AwaitQueued q]\<rparr>)"
| then_call:
    "i < length (awaits s) \<Longrightarrow> awaits s ! i = AwaitQueued q \<Longrightarrow>
     sched_step s (s\<lparr>awaits := (awaits s)[i := AwaitOn q (length (fetches s))],
                     fetches := fetches s @ [FetchSuspended q]\<rparr>)"
| fetch_resume:
    "j < length (fetches s) \<Longrightarrow> fetches s ! j = FetchSuspended q \<Longrightarrow>
     sched_step s (s\<lparr>fetches := (fetches s)[j := FetchDone (fetch_result q)]\<rparr>)"
| settle:
    "i < length (awaits s) \<Longrightarrow> awaits s ! i = AwaitOn q j \<Longrightarrow> j < length (fetches s) \<Longrightarrow>
     fetches s ! j = FetchDone r \<Longrightarrow>
     sched_step s (s\<lparr>awaits := (awaits s)[i := AwaitSettled q j r]\<rparr>)"

inductive_cases sched_stepE: "sched_step s t"

definition sched_reach :: "sched \<Rightarrow> bool" where
  "sched_reach s = sched_step\<^sup>*\<^sup>* sched_init s"

subsection \<open>The scheduler invariant\<close>

text \<open>The fetch invocation an await has started, if it has called \<open>then\<close> yet.\<close>

fun fetch_id :: "await_state \<Rightarrow> nat option" where
  "fetch_id (AwaitQueued q) = None"
| "fetch_id (AwaitOn q j) = Some j"
| "fetch_id (AwaitSettled q j r) = Some j"

fun await_ok :: "fetch_state list \<Rightarrow> await_state \<Rightarrow> bool" where
  "await_ok fs (AwaitQueued q) = True"
| "await_ok fs (AwaitOn q j) =
     (j < length fs \<and> (fs ! j = FetchSuspended q \<or> fs ! j = FetchDone (fetch_result q)))"
| "await_ok fs (AwaitSettled q j r) = (j < length fs \<and> fs ! j = FetchDone r \<and> r = fetch_result q)"

text \<open>Every await that has called \<open>then\<close> owns exactly one fetch invocation, every fetch
  invocation belongs to exactly one await, and an await waits on or has observed a fetch
  of its own query.\<close>

definition sched_inv :: "sched \<Rightarrow> bool" where
  "sched_inv s =
     ((\<forall>a \<in> set (awaits s). await_ok (fetches s) a) \<and>
      distinct (List.map_filter fetch_id (awaits s)) \<and>
      set (List.map_filter fetch_id (awaits s)) = {..<length (fetches s)})"

lemma map_filter_update_same:
  "i < length xs \<Longrightarrow> f (xs ! i) = f y \<Longrightarrow> List.map_filter f (xs[i := y]) = List.map_filter f xs"
  by (subst map_filter_update(1,2) [of i xs], simp)+ (simp add: map_filter_Cons)

lemma map_filter_update_new:
  assumes "i < length xs" "f (xs ! i) = None" "f y = Some n"
  shows "set (List.map_filter f (xs[i := y])) = insert n (set (List.map_filter f xs)) \<and>
         (distinct (List.map_filter f (xs[i := y])) \<longleftrightarrow>
            distinct (List.map_filter f xs) \<and> n \<notin> set (List.map_filter f xs))"
  using assms by (subst (1 2 3) map_filter_update(2) [OF assms(1)])
    (auto simp: map_filter_update(1) [OF assms(1)] map_filter_Cons)

lemma await_ok_append: "await_ok fs a \<Longrightarrow> await_ok (fs @ [x]) a"
  by (cases a) (auto simp: nth_append)

lemma sched_inv_init: "sched_inv sched_init"
  by (simp add: sched_inv_def sched_init_def map_filter_simps)

lemma sched_inv_step: "sched_step s t \<Longrightarrow> sched_inv s \<Longrightarrow> sched_inv t"
proof (induction rule: sched_step.induct)
  case (await_start s q)
  then show ?case by (simp add: sched_inv_def map_filter_append map_filter_simps)
next
  case (then_call i s q)
  let ?n = "length (fetches s)"
  have upd: "set (List.map_filter fetch_id ((awaits s)[i := AwaitOn q ?n])) =
               insert ?n (set (List.map_filter fetch_id (awaits s))) \<and>
             (distinct (List.map_filter fetch_id ((awaits s)[i := AwaitOn q ?n])) \<longleftrightarrow>
               distinct (List.map_filter fetch_id (awaits s)) \<and> ?n \<notin> set (List.map_filter fetch_id (awaits s)))"
    using then_call.hyps by (intro map_filter_update_new) simp_all
  from then_call.prems have "\<forall>a \<in> set ((awaits s)[i := AwaitOn q ?n]). await_ok (fetches s @ [FetchSuspended q]) a"
    by (auto simp: sched_inv_def await_ok_append nth_append dest!: set_update_subset_insert [THEN subsetD])
  with upd then_call.prems show ?case by (simp add: sched_inv_def lessThan_Suc)
next
  case (fetch_resume j s q)
  have "await_ok ((fetches s)[j := FetchDone (fetch_result q)]) a" if "a \<in> set (awaits s)" for a
    using fetch_resume that by (cases a) (auto simp: sched_inv_def nth_list_update)
  with fetch_resume show ?case by (simp add: sched_inv_def)
next
  case (settle i s q j r)
  then have "r = fetch_result q" by (force simp: sched_inv_def dest: nth_mem)
  with settle have "\<forall>a \<in> set ((awaits s)[i := AwaitSettled q j r]). await_ok (fetches s) a"
    by (auto simp: sched_inv_def dest!: set_update_subset_insert [THEN subsetD])
  with settle show ?case by (simp add: sched_inv_def map_filter_update_same)
qed

lemma sched_reach_inv: "sched_reach s \<Longrightarrow> sched_inv s"
  unfolding sched_reach_def
  by (induction rule: rtranclp_induct) (auto intro: sched_inv_init sched_inv_step)

subsection \<open>Progress\<close>

fun is_settled :: "await_state \<Rightarrow> bool" where
  "is_settled (AwaitSettled q j r) = True"
| "is_settled a = False"

definition all_settled :: "sched \<Rightarrow> bool" where
  "all_settled s = list_all is_settled (awaits s)"

text \<open>A measure every step but \<open>await_start\<close> decreases: a queued await still has three
  steps to run (the call of \<open>then\<close>, its fetch's resumption, its settlement), and
  an await waiting on a fetch one, plus one for each suspended fetch.\<close>

fun await_weight :: "await_state \<Rightarrow> nat" where
  "await_weight (AwaitQueued q) = 3"
| "await_weight (AwaitOn q j) = 1"
| "await_weight (AwaitSettled q j r) = 0"

fun fetch_weight :: "fetch_state \<Rightarrow> nat" where
  "fetch_weight (FetchSuspended q) = 1"
| "fetch_weight (FetchDone r) = 0"

definition sched_measure :: "sched \<Rightarrow> nat" where
  "sched_measure s = sum_list (map await_weight (awaits s)) + sum_list (map fetch_weight (fetches s))"

lemma sum_list_map_update:
  "i < length xs \<Longrightarrow> sum_list (map f (xs[i := y])) + f (xs ! i) = sum_list (map f xs) + (f y :: nat)"
  by (induction xs arbitrary: i) (auto split: nat.splits)

lemma sched_progress:
  assumes "sched_inv s" and "\<not> all_settled s"
  shows "\<exists>t. sched_step s t \<and> sched_measure t < sched_measure s"
proof -
  from assms(2) obtain i where i: "i < length (awaits s)" "\<not> is_settled (awaits s ! i)"
    by (auto simp: all_settled_def list_all_length)
  show ?thesis
  proof (cases "awaits s ! i")
    case (AwaitQueued q)
    let ?t = "s\<lparr>awaits := (awaits s)[i := AwaitOn q (length (fetches s))],
                fetches := fetches s @ [FetchSuspended q]\<rparr>"
    have "sched_step s ?t" using i(1) AwaitQueued by (rule then_call)
    moreover have "sched_measure ?t < sched_measure s"
      using sum_list_map_update [OF i(1), of await_weight "AwaitOn q (length (fetches s))"] AwaitQueued by (simp add: sched_measure_def)
    ultimately show ?thesis by blast
  next
    case (AwaitOn q j)
    with i assms(1) have j: "j < length (fetches s)"
      and fj: "fetches s ! j = FetchSuspended q \<or> fetches s ! j = FetchDone (fetch_result q)"
      by (force simp: sched_inv_def dest: nth_mem)+
    from fj show ?thesis
    proof
      assume fs: "fetches s ! j = FetchSuspended q"
      let ?t = "s\<lparr>fetches := (fetches s)[j := FetchDone (fetch_result q)]\<rparr>"
      have "sched_step s ?t" using j fs by (rule fetch_resume)
      moreover have "sched_measure ?t < sched_measure s"
        using sum_list_map_update [OF j, of fetch_weight "FetchDone (fetch_result q)"] fs by (simp add: sched_measure_def)
      ultimately show ?thesis by blast
    next
      assume fd: "fetches s ! j = FetchDone (fetch_result q)"
      let ?t = "s\<lparr>awaits := (awaits s)[i := AwaitSettled q j (fetch_result q)]\<rparr>"
      have "sched_step s ?t" using i(1) AwaitOn j fd by (rule settle)
      moreover have "sched_measure ?t < sched_measure s"
        using sum_list_map_update [OF i(1), of await_weight "AwaitSettled q j (fetch_result q)"] AwaitOn by (simp add: sched_measure_def)
      ultimately show ?thesis by blast
    qed
  next
    case (AwaitSettled q j r)
    with i show ?thesis by simp
  qed
qed

lemma sched_drain: "sched_inv s \<Longrightarrow> \<exists>t. sched_step\<^sup>*\<^sup>* s t \<and> all_settled t"
proof (induction "sched_measure s" arbitrary: s rule: less_induct)
  case less
  show ?case
  proof (cases "all_settled s")
    case False
    with less.prems obtain t where "sched_step s t" "sched_measure t < sched_measure s"
      using sched_progress by blast
    with less obtain u where "sched_step\<^sup>*\<^sup>* t u" "all_settled u"
      using sched_inv_step by blast
    with \<open>sched_step s t\<close> show ?thesis by (blast intro: converse_rtranclp_into_rtranclp)
  qed blast
qed

lemma sched_reach_step: "sched_reach s \<Longrightarrow> sched_step s t \<Longrightarrow> sched_reach t"
  unfolding sched_reach_def by (rule rtranclp.rtrancl_into_rtrancl)

lemma sched_reach_steps:
  "sched_reach s \<Longrightarrow> t = s\<lparr>awaits := awaits s @ [AwaitQueued q]\<rparr> \<Longrightarrow> sched_reach t"
  "sched_reach s \<Longrightarrow> i < length (awaits s) \<Longrightarrow> awaits s ! i = AwaitQueued q \<Longrightarrow>
   t = s\<lparr>awaits := (awaits s)[i := AwaitOn q (length (fetches s))],
         fetches := fetches s @ [FetchSuspended q]\<rparr> \<Longrightarrow> sched_reach t"
  "sched_reach s \<Longrightarrow> j < length (fetches s) \<Longrightarrow> fetches s ! j = FetchSuspended q \<Longrightarrow>
   t = s\<lparr>fetches := (fetches s)[j := FetchDone (fetch_result q)]\<rparr> \<Longrightarrow> sched_reach t"
  "sched_reach s \<Longrightarrow> i < length (awaits s) \<Longrightarrow> awaits s ! i = AwaitOn q j \<Longrightarrow>
   j < length (fetches s) \<Longrightarrow> fetches s ! j = FetchDone r \<Longrightarrow>
   t = s\<lparr>awaits := (awaits s)[i := AwaitSettled q j r]\<rparr> \<Longrightarrow> sched_reach t"
  by (auto intro: sched_reach_step sched_step.intros)

subsection \<open>A run: two concurrent awaits of the middleware's query\<close>

definition user_query :: DatabaseQuery where
  "user_query = into (fst (db_file ''db/fake/file.sql'' None [])) (ZodSchema UserSchema)"

text \<open>Both awaits are issued before either has called \<open>then\<close>; the run below is the one
  the FIFO microtask queue takes.\<close>

lemma two_awaits_run:
  "sched_reach \<lparr>awaits = [AwaitSettled user_query 0 (fetch_result user_query),
                          AwaitSettled user_query 1 (fetch_result user_query)],
                fetches = [FetchDone (fetch_result user_query), FetchDone (fetch_result user_query)]\<rparr>"
proof -
  let ?q = user_query and ?r = "fetch_result user_query"
  have "sched_reach \<lparr>awaits = [], fetches = []\<rparr>"
    by (simp add: sched_reach_def sched_init_def)
  then have "sched_reach \<lparr>awaits = [AwaitQueued ?q], fetches = []\<rparr>"
    by (rule sched_reach_steps(1) [where q = ?q]) simp
  then have "sched_reach \<lparr>awaits = [AwaitQueued ?q, AwaitQueued ?q], fetches = []\<rparr>"
    by (rule sched_reach_steps(1) [where q = ?q]) simp
  then have "sched_reach \<lparr>awaits = [AwaitOn ?q 0, AwaitQueued ?q], fetches = [FetchSuspended ?q]\<rparr>"
    by (rule sched_reach_steps(2) [where i = 0 and q = ?q]) simp_all
  then have "sched_reach \<lparr>awaits = [AwaitOn ?q 0, AwaitOn ?q 1],
                          fetches = [FetchSuspended ?q, FetchSuspended ?q]\<rparr>"
    by (rule sched_reach_steps(2) [where i = 1 and q = ?q]) simp_all
  then have "sched_reach \<lparr>awaits = [AwaitOn ?q 0, AwaitOn ?q 1],
                          fetches = [FetchDone ?r, FetchSuspended ?q]\<rparr>"
    by (rule sched_reach_steps(3) [where j = 0 and q = ?q]) simp_all
  then have "sched_reach \<lparr>awaits = [AwaitOn ?q 0, AwaitOn ?q 1], fetches = [FetchDone ?r, FetchDone ?r]\<rparr>"
    by (rule sched_reach_steps(3) [where j = 1 and q = ?q]) simp_all
  then have "sched_reach \<lparr>awaits = [AwaitSettled ?q 0 ?r, AwaitOn ?q 1], fetches = [FetchDone ?r, FetchDone ?r]\<rparr>"
    by (rule sched_reach_steps(4) [where i = 0 and q = ?q and j = 0 and r = ?r]) simp_all
  then show ?thesis
    by (rule sched_reach_steps(4) [where i = 1 and q = ?q and j = 1 and r = ?r]) simp_all
qed

subsection \<open>What awaiting a query does\<close>

text \<open>C4: no coalescing: in every reachable state each await that has called \<open>then\<close>
  owns its own \<open>fetch\<close> invocation, so there are exactly as many fetches as such awaits
  (awaiting one query twice fetches twice).\<close>

theorem sched_one_fetch_per_await:
  assumes "sched_reach s"
  shows "length (fetches s) = length (filter (\<lambda>a. fetch_id a \<noteq> None) (awaits s)) \<and>
         distinct (List.map_filter fetch_id (awaits s))"
proof -
  from sched_reach_inv [OF assms] have
    d: "distinct (List.map_filter fetch_id (awaits s))" and
    st: "set (List.map_filter fetch_id (awaits s)) = {..<length (fetches s)}"
    by (simp_all add: sched_inv_def)
  from distinct_card [OF d] st show ?thesis by (simp add: d length_map_filter)
qed

theorem sched_one_fetch_per_await_witness:
  "length (fetches \<lparr>awaits = [AwaitSettled user_query 0 (fetch_result user_query),
                              AwaitSettled user_query 1 (fetch_result user_query)],
                    fetches = [FetchDone (fetch_result user_query), FetchDone (fetch_result user_query)]\<rparr>) = 2"
  using sched_one_fetch_per_await [OF two_awaits_run] by simp

text \<open>C5: the outcome each await observes is the outcome of one execution of its query:
  any two settled awaits of \<open>q\<close> hold the same outcome, \<open>fetch_result q\<close>, whichever
  order the microtasks ran in, although each ran its own fetch.\<close>

theorem sched_settled_outcome:
  assumes "sched_reach s"
    and "AwaitSettled q j r \<in> set (awaits s)" and "AwaitSettled q j' r' \<in> set (awaits s)"
  shows "r = r' \<and> r = fetch_result q"
proof -
  from sched_reach_inv [OF assms(1)] have "\<forall>a \<in> set (awaits s). await_ok (fetches s) a"
    by (simp add: sched_inv_def)
  with assms(2,3) have "r = fetch_result q" and "r' = fetch_result q" by force+
  then show ?thesis by simp
qed

lemma fetch_user_query: "fetch_result user_query = Inr user_record"
  by (simp add: user_query_def into_def new_DatabaseQuery_def fetch_result_def parse_UserSchema_data)

theorem sched_settled_outcome_witness:
  "fetch_result user_query = Inr user_record"
  using sched_settled_outcome [OF two_awaits_run [unfolded fetch_user_query],
          of user_query 0 "Inr user_record" 1 "Inr user_record"]
  by simp

text \<open>C6: awaits always settle: from every reachable state the microtasks can run until
  every await issued so far has settled.\<close>

theorem sched_can_settle:
  assumes "sched_reach s"
  shows "\<exists>t. sched_step\<^sup>*\<^sup>* s t \<and> all_settled t"
  using sched_drain [OF sched_reach_inv [OF assms]] .

theorem sched_can_settle_witness:
  "\<exists>t. sched_step\<^sup>*\<^sup>* \<lparr>awaits = [AwaitQueued user_query], fetches = []\<rparr> t \<and> all_settled t"
proof -
  have "sched_reach \<lparr>awaits = [], fetches = []\<rparr>"
    by (simp add: sched_reach_def sched_init_def)
  then have "sched_reach \<lparr>awaits = [AwaitQueued user_query], fetches = []\<rparr>"
    by (rule sched_reach_steps(1) [where q = user_query]) simp
  then show ?thesis by (rule sched_can_settle)
qed

text \<open>C14: the single await the middleware performs (\<open>query_then\<close>) is a run of the
  step relation: from any state, issuing an await of \<open>q\<close> and running its three
  microtasks settles it with \<open>query_then\<close>'s outcome and adds exactly the one fetch that
  \<open>query_then\<close> logs.\<close>

theorem query_then_run:
  "\<exists>t. sched_step\<^sup>*\<^sup>* s t \<and>
       awaits t = awaits s @ [AwaitSettled q (length (fetches s)) (snd (query_then q log))] \<and>
       fetches t = fetches s @ [FetchDone (snd (query_then q log))] \<and>
       fst (query_then q log) = log @ [q]"
proof -
  let ?i = "length (awaits s)" and ?j = "length (fetches s)" and ?r = "fetch_result q"
  let ?s1 = "s\<lparr>awaits := awaits s @ [AwaitQueued q]\<rparr>"
  let ?s2 = "s\<lparr>awaits := awaits s @ [AwaitOn q ?j], fetches := fetches s @ [FetchSuspended q]\<rparr>"
  let ?s3 = "s\<lparr>awaits := awaits s @ [AwaitOn q ?j], fetches := fetches s @ [FetchDone ?r]\<rparr>"
  let ?s4 = "s\<lparr>fetches := fetches s @ [FetchDone ?r], awaits := awaits s @ [AwaitSettled q ?j ?r]\<rparr>"
  have "sched_step\<^sup>*\<^sup>* s ?s1" using await_start [of s q] by (rule r_into_rtranclp)
  moreover have "sched_step ?s1 ?s2"
    using then_call [of ?i ?s1 q] by simp
  ultimately have "sched_step\<^sup>*\<^sup>* s ?s2" by (rule rtranclp.rtrancl_into_rtrancl)
  moreover have "sched_step ?s2 ?s3"
    using fetch_resume [of ?j ?s2 q] by simp
  ultimately have "sched_step\<^sup>*\<^sup>* s ?s3" by (rule rtranclp.rtrancl_into_rtrancl)
  moreover have "sched_step ?s3 ?s4"
    using settle [of ?i ?s3 q ?j ?r] by simp
  ultimately have "sched_step\<^sup>*\<^sup>* s ?s4" by (rule rtranclp.rtrancl_into_rtrancl)
  then show ?thesis by (intro exI [of _ ?s4]) (simp add: query_then_def)
qed

text \<open>C28: a query fails only in validation: a rejected \<open>fetch\<close> is the rejection of its zod
  schema's \<open>parse\<close> of the fetched record; there is no fetch-stage failure.\<close>

theorem fetch_failure_is_validation:
  assumes "fetch_result q = Inl e"
  shows "\<exists>z. schema q = ZodSchema z \<and> zod_parse z data = Inl e \<and> (\<forall>iss. e = ThrownZod iss \<longrightarrow> iss \<noteq> [])"
  using assms zod_error_nonempty by (cases "schema q") (auto simp: fetch_result_def)

theorem fetch_failure_is_validation_witness:
  "\<exists>z. schema (into user_query (ZodSchema ZString)) = ZodSchema z \<and>
       zod_parse z data = Inl (ThrownZod [([], InvalidType ZtString ZtObject)]) \<and>
       (\<forall>iss. ThrownZod [([], InvalidType ZtString ZtObject)] = ThrownZod iss \<longrightarrow> iss \<noteq> [])"
proof (rule fetch_failure_is_validation)
  show "fetch_result (into user_query (ZodSchema ZString)) = Inl (ThrownZod [([], InvalidType ZtString ZtObject)])"
    by (simp add: into_def new_DatabaseQuery_def fetch_result_def zod_parse_def check_type_def data_def)
qed

end
