(* ===== verification/JsOutput.thy ===== *)
theory JsOutput
  imports PrivateValue
begin

text \<open>
  The two output boundaries a PrivateValue meets: \<open>JSON.stringify\<close> (ECMAScript 25.5.2,
  the serialization boundary of the spec's section 6), which calls the class's
  \<open>toJSON\<close> hook, and Node's \<open>util.inspect\<close> (the debug boundary), which calls the
  class's custom inspection hook. Serialization is structural recursion over the value;
  inspection is given fuel, because the hook calls \<open>util.inspect\<close> again on
  \<open>this.valueOf()\<close>, which for an array or plain object is the object itself.
\<close>

subsection \<open>JSON.stringify\<close>

definition hex_digit :: "nat \<Rightarrow> char" where
  "hex_digit n = (if n < 10 then char_of (48 + n) else char_of (87 + n))"

definition hex_upper :: "nat \<Rightarrow> char" where
  "hex_upper n = (if n < 10 then char_of (48 + n) else char_of (55 + n))"

text \<open>QuoteJSONString (25.5.2.3): the short escapes, \<open>\u00XX\<close> for the other control
  characters.\<close>

definition quote_char :: "char \<Rightarrow> string" where
  "quote_char c =
     (if c = CHR 0x22 then [CHR 0x5C, CHR 0x22]
      else if c = CHR 0x5C then [CHR 0x5C, CHR 0x5C]
      else if c = CHR 0x08 then [CHR 0x5C, CHR ''b'']
      else if c = CHR 0x0C then [CHR 0x5C, CHR ''f'']
      else if c = CHR 0x0A then [CHR 0x5C, CHR ''n'']
      else if c = CHR 0x0D then [CHR 0x5C, CHR ''r'']
      else if c = CHR 0x09 then [CHR 0x5C, CHR ''t'']
      else if of_char c < (32::nat)
        then [CHR 0x5C, CHR ''u'', CHR ''0'', CHR ''0'',
              hex_digit (of_char c div 16), hex_digit (of_char c mod 16)]
      else [c])"

definition quote_json :: "string \<Rightarrow> string" where
  "quote_json s = CHR 0x22 # concat (map quote_char s) @ [CHR 0x22]"

text \<open>SerializeJSONProperty (25.5.2.2) with no replacer: an object with a \<open>toJSON\<close>
  method is replaced by what the method returns; wrapper objects are unwrapped; BigInts
  throw; \<open>undefined\<close> and symbols give no text (\<open>None\<close>), which an object omits
  together with its key and an array writes as \<open>null\<close>.\<close>

function ser_value :: "jsval \<Rightarrow> jserror + string option"
  and ser_elems :: "jsval option list \<Rightarrow> jserror + string list"
  and ser_props :: "(string \<times> jsval) list \<Rightarrow> jserror + string list" where
  "ser_value v =
     (if is_private_instance v then ser_value (private_toJSON v)
      else case v of
        JNull \<Rightarrow> Inr (Some ''null'')
      | JBool b \<Rightarrow> Inr (Some (if b then ''true'' else ''false''))
      | JNum JNaN \<Rightarrow> Inr (Some ''null'')
      | JNum (JInt i) \<Rightarrow> Inr (Some (int_to_dec i))
      | JStr s \<Rightarrow> Inr (Some (quote_json s))
      | JBigInt i \<Rightarrow> Inl TypeError
      | JObj c (SBool b) \<Rightarrow> Inr (Some (if b then ''true'' else ''false''))
      | JObj c (SNum JNaN) \<Rightarrow> Inr (Some ''null'')
      | JObj c (SNum (JInt i)) \<Rightarrow> Inr (Some (int_to_dec i))
      | JObj c (SStr s) \<Rightarrow> Inr (Some (quote_json s))
      | JObj c (SArr xs) \<Rightarrow>
          sbind (ser_elems xs) (\<lambda>ss. Inr (Some (CHR ''['' # join_comma ss @ '']'')))
      | JObj c (SProps ps) \<Rightarrow>
          sbind (ser_props ps) (\<lambda>ss. Inr (Some (CHR ''{'' # join_comma ss @ ''}'')))
      | _ \<Rightarrow> Inr None)"
| "ser_elems [] = Inr []"
| "ser_elems (None # xs) = sbind (ser_elems xs) (\<lambda>ss. Inr (''null'' # ss))"
| "ser_elems (Some v # xs) =
     sbind (ser_value v) (\<lambda>r. sbind (ser_elems xs) (\<lambda>ss.
       Inr ((case r of None \<Rightarrow> ''null'' | Some t \<Rightarrow> t) # ss)))"
| "ser_props [] = Inr []"
| "ser_props ((k, v) # ps) =
     sbind (ser_value v) (\<lambda>r. sbind (ser_props ps) (\<lambda>ss.
       Inr (case r of None \<Rightarrow> ss | Some t \<Rightarrow> (quote_json k @ CHR '':'' # t) # ss)))"
  by pat_completeness auto
termination
  by (relation "measure (case_sum size (case_sum (size_list (size_option size))
                  (size_list (size_prod (\<lambda>_. 0) size))))")
     (auto simp: private_toJSON_def elim: is_private_instance.elims)

definition json_stringify :: "jsval \<Rightarrow> jserror + string option" where
  "json_stringify v = ser_value v"

declare ser_value.simps [simp del]

subsection \<open>util.inspect\<close>

text \<open>Node's \<open>util.inspect\<close> (lib/internal/util/inspect.js) with its default options
  (\<open>depth: 2\<close>, \<open>customInspect: true\<close>), and with \<open>colors\<close> as a parameter:
  \<open>stylizeWithColor\<close> wraps a token in the ANSI codes of its style (numbers, BigInts and
  booleans yellow, strings and symbols green, \<open>undefined\<close> grey, \<open>null\<close> bold,
  \<open>[Array]\<close> and \<open>[Object]\<close> cyan). Strings are quoted with the first of
  \<open>'\<close>, \<open>"\<close>, \<open>`\<close> they do not contain. Arrays and plain objects are rendered on one
  line; Node's line breaking of output wider than 80 columns and its grouping of long
  arrays into columns are not modelled.\<close>

datatype style = StNumber | StString | StUndefined | StNull | StSpecial

definition ansi :: "nat \<Rightarrow> string" where
  "ansi n = [CHR 0x1B, CHR ''[''] @ nat_digits n @ ''m''"

fun style_codes :: "style \<Rightarrow> nat \<times> nat" where
  "style_codes StNumber = (33, 39)"
| "style_codes StString = (32, 39)"
| "style_codes StUndefined = (90, 39)"
| "style_codes StNull = (1, 22)"
| "style_codes StSpecial = (36, 39)"

definition stylize :: "bool \<Rightarrow> style \<Rightarrow> string \<Rightarrow> string" where
  "stylize colors st s =
     (if colors then ansi (fst (style_codes st)) @ s @ ansi (snd (style_codes st)) else s)"

definition str_escape_char :: "char \<Rightarrow> char \<Rightarrow> string" where
  "str_escape_char q c =
     (if c = q \<or> c = CHR 0x5C then [CHR 0x5C, c]
      else if c = CHR 0x0A then [CHR 0x5C, CHR ''n'']
      else if c = CHR 0x09 then [CHR 0x5C, CHR ''t'']
      else if c = CHR 0x0D then [CHR 0x5C, CHR ''r'']
      else if c = CHR 0x08 then [CHR 0x5C, CHR ''b'']
      else if c = CHR 0x0C then [CHR 0x5C, CHR ''f'']
      else if of_char c < (32::nat) \<or> of_char c = (127::nat)
        then [CHR 0x5C, CHR ''x'', hex_upper (of_char c div 16), hex_upper (of_char c mod 16)]
      else [c])"

definition str_escape :: "string \<Rightarrow> string" where
  "str_escape s =
     (let q = (if CHR 0x27 \<notin> set s then CHR 0x27
               else if CHR 0x22 \<notin> set s then CHR 0x22
               else if CHR 0x60 \<notin> set s then CHR 0x60 else CHR 0x27)
      in q # concat (map (str_escape_char q) s) @ [q])"

fun format_prim :: "bool \<Rightarrow> jsval \<Rightarrow> string" where
  "format_prim col (JStr s) = stylize col StString (str_escape s)"
| "format_prim col (JNum n) = stylize col StNumber (num_to_string n)"
| "format_prim col (JBigInt i) = stylize col StNumber (int_to_dec i @ ''n'')"
| "format_prim col (JBool b) = stylize col StNumber (if b then ''true'' else ''false'')"
| "format_prim col JUndefined = stylize col StUndefined ''undefined''"
| "format_prim col JNull = stylize col StNull ''null''"
| "format_prim col (JSymbol d) = stylize col StString (''Symbol('' @ d @ '')'')"
| "format_prim col (JObj c s) = []"

fun format_boxed :: "bool \<Rightarrow> slot \<Rightarrow> string" where
  "format_boxed col (SBool b) = stylize col StNumber (''[Boolean: '' @ format_prim False (JBool b) @ '']'')"
| "format_boxed col (SNum n) = stylize col StNumber (''[Number: '' @ format_prim False (JNum n) @ '']'')"
| "format_boxed col (SStr t) = stylize col StString (''[String: '' @ format_prim False (JStr t) @ '']'')"
| "format_boxed col sl = []"

definition is_identifier :: "string \<Rightarrow> bool" where
  "is_identifier k \<longleftrightarrow> k \<noteq> [] \<and> \<not> is_dec_digit (hd k) \<and>
     list_all (\<lambda>c. is_dec_digit c \<or> c = CHR ''_'' \<or> c = CHR ''$'' \<or>
        (65 \<le> (of_char c :: nat) \<and> of_char c \<le> (90::nat)) \<or>
        (97 \<le> (of_char c :: nat) \<and> of_char c \<le> (122::nat))) k"

definition format_key :: "bool \<Rightarrow> string \<Rightarrow> string" where
  "format_key col k = (if is_identifier k then k else stylize col StString (str_escape k))"

definition holes_text :: "nat \<Rightarrow> string" where
  "holes_text k = ''<'' @ nat_digits k @ '' empty item'' @ (if k = 1 then [] else ''s'') @ ''>''"

fun join_sep :: "string list \<Rightarrow> string" where
  "join_sep [] = []"
| "join_sep [s] = s"
| "join_sep (s # ss) = s @ '', '' @ join_sep ss"

definition braces :: "string \<Rightarrow> string \<Rightarrow> string list \<Rightarrow> string" where
  "braces l r ss = (if ss = [] then l @ r else l @ '' '' @ join_sep ss @ '' '' @ r)"

text \<open>\<open>inspect_val fuel colors depth v\<close>: each call of \<open>formatValue\<close> spends one unit of
  fuel; \<open>None\<close> is a rendering that has not finished when the fuel runs out. A
  PrivateValue instance is rendered by its hook, which starts a fresh \<open>util.inspect\<close>
  (depth 0, colours on) of \<open>this.valueOf()\<close>.\<close>

fun inspect_val :: "nat \<Rightarrow> bool \<Rightarrow> nat \<Rightarrow> jsval \<Rightarrow> string option"
  and inspect_elems :: "nat \<Rightarrow> bool \<Rightarrow> nat \<Rightarrow> nat \<Rightarrow> jsval option list \<Rightarrow> string list option"
  and inspect_props :: "nat \<Rightarrow> bool \<Rightarrow> nat \<Rightarrow> (string \<times> jsval) list \<Rightarrow> string list option" where
  "inspect_val 0 col d v = None"
| "inspect_val (Suc n) col d v =
     (if is_private_instance v then inspect_hook (inspect_val n True 0) v
      else case v of
        JObj c (SArr xs) \<Rightarrow>
          if 2 < d then Some (stylize col StSpecial ''[Array]'')
          else map_option (braces ''['' '']'') (inspect_elems n col (Suc d) 0 xs)
      | JObj c (SProps ps) \<Rightarrow>
          if 2 < d then Some (stylize col StSpecial ''[Object]'')
          else map_option (braces ''{'' ''}'') (inspect_props n col (Suc d) ps)
      | JObj c sl \<Rightarrow> Some (format_boxed col sl)
      | _ \<Rightarrow> Some (format_prim col v))"
| "inspect_elems n col d k [] = Some (if k = 0 then [] else [holes_text k])"
| "inspect_elems n col d k (None # xs) = inspect_elems n col d (Suc k) xs"
| "inspect_elems n col d k (Some v # xs) =
     (case inspect_val n col d v of
        None \<Rightarrow> None
      | Some s \<Rightarrow> map_option (\<lambda>ss. (if k = 0 then [] else [holes_text k]) @ s # ss)
                    (inspect_elems n col d 0 xs))"
| "inspect_props n col d [] = Some []"
| "inspect_props n col d ((k, v) # ps) =
     (case inspect_val n col d v of
        None \<Rightarrow> None
      | Some s \<Rightarrow> map_option (\<lambda>ss. (format_key col k @ '': '' @ s) # ss) (inspect_props n col d ps))"

text \<open>\<open>util.inspect(v)\<close> with its default options, as \<open>console.log\<close> uses it for an
  object argument.\<close>

definition util_inspect :: "nat \<Rightarrow> jsval \<Rightarrow> string option" where
  "util_inspect fuel v = inspect_val fuel False 0 v"

subsection \<open>Facts about the two boundaries\<close>

lemma ser_value_private [js_simps]: "is_private_instance v \<Longrightarrow> ser_value v = Inr None"
proof -
  have "ser_value JUndefined = Inr None" by (subst ser_value.simps) simp
  then show "is_private_instance v \<Longrightarrow> ser_value v = Inr None"
    by (subst ser_value.simps) (simp add: private_toJSON_def)
qed

text \<open>The serializer on the values of built-in classes, for evaluation.\<close>

lemma ser_value_builtin [js_simps]:
  "ser_value JNull = Inr (Some ''null'')"
  "ser_value (JBool b) = Inr (Some (if b then ''true'' else ''false''))"
  "ser_value (JNum (JInt i)) = Inr (Some (int_to_dec i))"
  "ser_value (JStr s) = Inr (Some (quote_json s))"
  "ser_value (JObj (Builtin bc) (SProps ps)) =
     sbind (ser_props ps) (\<lambda>ss. Inr (Some (CHR ''{'' # join_comma ss @ ''}'')))"
  "ser_value (JObj (Builtin bc) (SArr xs)) =
     sbind (ser_elems xs) (\<lambda>ss. Inr (Some (CHR ''['' # join_comma ss @ '']'')))"
  by (subst ser_value.simps; simp)+

lemma makePrivateValue_instance:
  "v \<noteq> JNull \<Longrightarrow> makePrivateValue v = Inr w \<Longrightarrow> is_private_instance w"
  by (auto simp: makePrivateValue_Inr_iff)

lemma size_elem_less: "Some x \<in> set xs \<Longrightarrow> size x < size (JObj c (SArr xs))"
  by (induction xs) auto

lemma size_prop_less: "(k, x) \<in> set ps \<Longrightarrow> size x < size (JObj c (SProps ps))"
  by (induction ps) auto

text \<open>C2: whatever non-null value is wrapped, \<open>JSON.stringify\<close> of the wrapper is
  \<open>undefined\<close>: the \<open>toJSON\<close> hook hides it at the serialization boundary, while the
  value itself still serializes.\<close>

theorem json_private_absent:
  assumes "v \<noteq> JNull" and "makePrivateValue v = Inr w"
  shows "json_stringify w = Inr None"
  using assms by (simp add: json_stringify_def ser_value_private makePrivateValue_instance)

theorem json_private_absent_witness:
  "json_stringify (JObj (PrivateValue (Builtin BBoolean)) (SBool False)) = Inr None \<and>
   json_stringify (JBool False) = Inr (Some ''false'')"
proof -
  have "json_stringify (JBool False) = Inr (Some ''false'')"
    by (simp add: json_stringify_def ser_value.simps)
  with json_private_absent [of "JBool False"] show ?thesis by (simp add: js_simps)
qed

text \<open>C3: inside a record a private field serializes as if it were not there, and inside
  an array a private element serializes as \<open>null\<close>; every other field and element
  serializes unchanged.\<close>

theorem json_private_fields_omitted:
  "ser_props ps = ser_props (filter (\<lambda>(k, v). \<not> is_private_instance v) ps) \<and>
   ser_elems xs = ser_elems (map (\<lambda>x. case x of Some v \<Rightarrow> if is_private_instance v then None
                                              else Some v | None \<Rightarrow> None) xs)"
proof
  show "ser_props ps = ser_props (filter (\<lambda>(k, v). \<not> is_private_instance v) ps)"
    by (induction ps) (auto simp: ser_value_private)
  show "ser_elems xs = ser_elems (map (\<lambda>x. case x of Some v \<Rightarrow> if is_private_instance v then None
                                              else Some v | None \<Rightarrow> None) xs)"
  proof (induction xs)
    case (Cons x xs)
    then show ?case by (cases x) (auto simp: ser_value_private)
  qed simp
qed

text \<open>C26: at the debug boundary a wrapped boolean, number or string renders as
  \<open>Private<\<close>, the coloured rendering of the primitive, and \<open>>\<close>.\<close>

theorem inspect_private_prim:
  assumes "type_of v \<in> {TBoolean, TNumber, TString}" and "makePrivateValue v = Inr w"
  shows "inspect_val (Suc (Suc n)) col d w = Some (''Private<'' @ format_prim True v @ ''>'')"
  using assms by (cases v) (auto simp: js_simps inspect_hook_def)

theorem inspect_private_prim_witness:
  "util_inspect 2 (JObj (PrivateValue (Builtin BBoolean)) (SBool False)) =
     Some (''Private<'' @ ansi 33 @ ''false'' @ ansi 39 @ ''>'')"
  using inspect_private_prim [of "JBool False" _ 0 False 0]
  by (simp add: js_simps util_inspect_def stylize_def numeral_2_eq_2)

text \<open>C27: inspecting a wrapped array or plain object never finishes: the hook renders
  \<open>this.valueOf()\<close>, which for these objects is the wrapper itself, so the hook calls
  itself again whatever the fuel.\<close>

theorem inspect_private_container_diverges:
  assumes "is_private_cls c" and "s = SArr xs \<or> s = SProps ps"
  shows "inspect_val n col d (JObj c s) = None"
  using assms
proof (induction n arbitrary: col d)
  case (Suc n)
  then have "value_of (JObj c s) = JObj c s" by auto
  with Suc show ?case by (simp add: inspect_hook_def)
qed simp

theorem inspect_private_container_diverges_witness:
  "util_inspect 1000 (JObj (PrivateValue (Builtin BArray)) (SArr [Some (JNum (JInt 1))])) = None"
  using inspect_private_container_diverges [of "PrivateValue (Builtin BArray)"
          "SArr [Some (JNum (JInt 1))]" "[Some (JNum (JInt 1))]" "[]" 1000 False 0]
  by (simp add: util_inspect_def)

end
