(* ===== verification/Middleware.thy ===== *)
theory Middleware
  imports Query JsOutput
begin

text \<open>
  The route middleware (the default export, lines 95--101). It awaits the query
  \<open>db.file('db/fake/file.sql').into(UserSchema)\<close>, stores the record in \<open>context.test\<close>,
  logs \<open>result.super_secret_property == false\<close>, sets \<open>context.serializedGlobals.test\<close> and
  returns what the next handler returns. The state is the part of the world the
  middleware touches: the two context properties it writes, the heap of parameter
  objects, the log of \<open>fetch\<close> invocations and the console's lines. The context and
  \<open>next\<close> come from the web framework, outside the repository: the context's
  \<open>serializedGlobals\<close> is a plain object or missing, and \<open>next\<close> is a parameter.
\<close>

record mw_state =
  test :: jsval
  serializedGlobals :: "(string \<times> jsval) list option"
  mw_heap :: heap
  fetch_log :: "DatabaseQuery list"
  stdout :: "string list"

text \<open>\<open>console.log\<close> of a boolean prints it as \<open>util.inspect\<close> does, without colours.\<close>

definition console_log :: "mw_state \<Rightarrow> jsval \<Rightarrow> mw_state" where
  "console_log st v = st\<lparr>stdout := stdout st @ [format_prim False v]\<rparr>"

text \<open>The middleware. \<open>await q\<close> runs \<open>q.then\<close>, hence one \<open>fetch\<close>, to completion. A loose
  comparison whose operands are both objects compares identities (\<open>None\<close>); the
  objects compared there are never the same, so it reads as \<open>false\<close>. Assigning a property
  of \<open>undefined\<close> throws a TypeError.\<close>

definition middleware ::
    "(mw_state \<Rightarrow> mw_state \<times> (thrown + 'a)) \<Rightarrow> mw_state \<Rightarrow> mw_state \<times> (thrown + 'a)" where
  "middleware next st =
     (let (q0, h) = db_file ''db/fake/file.sql'' None (mw_heap st);
          q = into q0 (ZodSchema UserSchema);
          (log, res) = query_then q (fetch_log st);
          st1 = st\<lparr>mw_heap := h, fetch_log := log\<rparr>
      in case res of
           Inl e \<Rightarrow> (st1, Inl e)
         | Inr result \<Rightarrow>
             (let st2 = st1\<lparr>test := result\<rparr>
              in case sbind (get_prop result ''super_secret_property'') (\<lambda>x. loose_eq x (JBool False)) of
                   Inl e \<Rightarrow> (st2, Inl (ThrownJs e))
                 | Inr b \<Rightarrow>
                     (let st3 = console_log st2 (JBool (b = Some True))
                      in case serializedGlobals st3 of
                           None \<Rightarrow> (st3, Inl (ThrownJs TypeError))
                         | Some g \<Rightarrow> next (st3\<lparr>serializedGlobals := Some (assoc_set ''test'' (JBool True) g)\<rparr>))))"

lemma middleware_eval:
  "middleware next st =
     (let st3 = st\<lparr>mw_heap := mw_heap st @ [[]],
                   fetch_log := fetch_log st @
                     [into (new_DatabaseQuery ''db/fake/file.sql'' (length (mw_heap st)) (OtherVal JUndefined))
                           (ZodSchema UserSchema)],
                   test := user_record,
                   stdout := stdout st @ [''true'']\<rparr>
      in case serializedGlobals st of
           None \<Rightarrow> (st3, Inl (ThrownJs TypeError))
         | Some g \<Rightarrow> next (st3\<lparr>serializedGlobals := Some (assoc_set ''test'' (JBool True) g)\<rparr>))"
proof -
  have "fetch_result (into q (ZodSchema UserSchema)) = Inr user_record" for q
    using parse_UserSchema_data by (simp add: fetch_result_def into_def new_DatabaseQuery_def)
  moreover have "get_prop user_record ''super_secret_property'' =
                   Inr (JObj (PrivateValue (Builtin BBoolean)) (SBool False))"
    by (simp add: user_record_def)
  ultimately show ?thesis
    by (simp add: middleware_def db_file_def query_then_def console_log_def stylize_def js_simps
         split: option.split)
qed

end
