(* ===== verification/Spec2Isabelle.thy ===== *)
theory Spec2Isabelle
  imports Middleware
begin

text \<open>
  \<^bold>\<open>Verification library of the leakless proof of concept.\<close>
  The program is one file, \<^verbatim>\<open>src/src/routes/_index/+middleware.ts\<close>, a route
  middleware of a web application. It has four parts:
  \<^item> the privacy wrapper \<open>makePrivateValue\<close> (lines 7--29), which builds at run time a
    subclass \<open>PrivateValue\<close> of the value's own constructor, overriding
    \<open>toJSON\<close>, the \<open>util.inspect\<close> hook and \<open>Symbol.toStringTag\<close>, and instantiates it
    from the value;
  \<^item> the schema combinator \<open>makePrivate\<close> (lines 32--39), a zod \<open>transform\<close> applying the
    wrapper to every defined value, and the program's record \<open>data\<close> and schema
    \<open>UserSchema\<close> (lines 41--51);
  \<^item> the deferred query \<open>DatabaseQuery\<close> with \<open>then\<close>, \<open>into\<close>, \<open>fetch\<close> (lines 53--85) and the
    driver \<open>db.file\<close> (lines 88--92);
  \<^item> the middleware itself (lines 95--101), which awaits
    \<open>db.file('db/fake/file.sql').into(UserSchema)\<close>, stores the record in the request
    context, logs a comparison of the private field and calls the next handler.

  \<^bold>\<open>Theories.\<close>
  \<^item> \<open>Prelude\<close>: the error monad \<open>sbind\<close> over \<open>'e + 'a\<close> (\<open>Inl\<close> is a thrown value),
    \<open>smap\<close>, association lists as objects (\<open>assoc_set\<close>), \<open>List.map_filter\<close> facts,
    decimal rendering; the collections \<open>js_simps\<close> and \<open>wf_intros\<close>.
  \<^item> \<open>JsValue\<close>: the fragment of ECMAScript the code relies on, from the standard: values
    (\<open>jsval\<close>, objects as a class chain \<open>cls\<close> and an internal slot \<open>slot\<close>), ToBoolean,
    ToString, ToPrimitive, ToNumber, \<open>==\<close> (\<open>loose_eq\<close>) and \<open>===\<close> (\<open>strict_eq\<close>), the
    built-in constructors reached by \<open>super(...)\<close> (\<open>base_construct\<close>, \<open>array_ctor\<close>
    with ToUint32 on a 32-bit word), property reads (\<open>get_prop\<close>) and the
    well-formedness invariant \<open>wf_val\<close>.
  \<^item> \<open>PrivateValue\<close>: \<open>makePrivateValue\<close> and its parts (\<open>constructor_of\<close>,
    \<open>new_private_value\<close>, \<open>ctor_args\<close>/\<open>spread\<close>), the class's hooks (\<open>private_toJSON\<close>,
    \<open>inspect_hook\<close>, \<open>private_to_string_tag\<close>) and the transform \<open>private_transform\<close>.
  \<^item> \<open>JsOutput\<close>: the two boundaries, \<open>JSON.stringify\<close> (\<open>ser_value\<close>, honouring \<open>toJSON\<close>)
    and Node's \<open>util.inspect\<close> (\<open>inspect_val\<close>, honouring the custom hook).
  \<^item> \<open>Zod\<close>: the synchronous zod 3 parser for the schemas the code builds (\<open>parse_at\<close>,
    \<open>zod_parse\<close>), and the repository's \<open>makePrivate\<close>, \<open>data\<close>, \<open>UserSchema\<close>.
  \<^item> \<open>Query\<close>: \<open>DatabaseQuery\<close> as a record, \<open>into\<close>, \<open>db_file\<close> (with a heap of parameter
    objects), \<open>fetch_result\<close> (the outcome of \<open>fetch\<close>), \<open>query_then\<close>, and the step relation
    \<open>sched_step\<close> of concurrent awaits over the microtask queue.
  \<^item> \<open>Middleware\<close>: the state the middleware touches (\<open>mw_state\<close>) and \<open>middleware\<close>,
    composed from the operations above, with \<open>next\<close> as a parameter.
  \<^item> this theory: the properties of the whole request.

  \<^bold>\<open>What the lemmas show.\<close>
  The wrapper's group shows what wrapping does to each kind of value: the wrapper is a
  well-formed object of a class extending the value's constructor; it is loosely equal
  to what the value is loosely equal to, reads the same \<open>length\<close> and indices (except
  for plain objects and arrays holding one number) and gives back the primitive it
  wraps, but is never strictly equal to the value, and always truthy; wrapping twice
  turns a boolean into \<open>true\<close>; plain objects lose their own properties, and throw when
  they have an own \<open>constructor\<close> key; arrays of one number become holes or throw; the
  \<open>toStringTag\<close> override has no effect; \<open>undefined\<close>, BigInts and symbols throw; the
  \<open>makePrivate\<close> transform leaves exactly \<open>undefined\<close> and \<open>null\<close> unchanged. The output group shows that
  \<open>JSON.stringify\<close> omits private values at every depth, and that \<open>util.inspect\<close> renders a
  private primitive as \<open>Private<...>\<close> but never finishes on a private container. The zod
  group proves of the parser that an object schema aggregates the issues of all its
  fields with their paths, ignores extra keys and keeps the value invariant, and of the
  program's schema what \<open>UserSchema\<close> returns on every record with its three keys,
  including the single issue of a non-number \<open>age\<close>. The
  query group proves an invariant of the scheduler by rule induction (each await that
  has called \<open>then\<close> owns exactly one fetch), that all settled awaits of a query observe the same outcome,
  that they always can settle (a measure that every step but a new await decreases),
  that the middleware's single await \<open>query_then\<close> is a run of the step relation, and
  that a query fails only in validation. This
  theory evaluates the middleware: the response JSON, the console line, the debug
  rendering, and the TypeError when \<open>serializedGlobals\<close> is missing.

  \<^bold>\<open>Fuel and bounds.\<close> \<open>util.inspect\<close> is modelled with fuel, one unit per call of
  Node's \<open>formatValue\<close>, because the custom hook of a wrapped array or object recurses
  on the wrapper itself without end: \<open>None\<close> is the rendering that never finishes, proved
  to be the result for every fuel. The program's record needs four units (the record,
  a field, the hook's fresh inspection and its primitive); the theorems hold for every
  fuel from four on. Array lengths are ToUint32 of the argument, a 32-bit word.

  \<^bold>\<open>Not modelled.\<close> The zod library, the JavaScript runtime and Node are not code of
  the repository: they are modelled from their documentation only as far as the
  program uses them (base types, objects, transforms; the operations listed above).
  The interfaces and type aliases of lines 4--5 have no run-time content. Functions are not values of the model, so
  methods read through the prototype chain are not modelled by property reads. Object
  identity is not modelled: objects are values, so \<open>===\<close> between two objects is left
  open (\<open>None\<close>). Node's line breaking of long inspections is not modelled. The web
  framework's context and \<open>next\<close> are parameters: \<open>serializedGlobals\<close> is a plain object
  or absent.
\<close>

subsection \<open>The request, end to end\<close>

text \<open>C1: with a \<open>serializedGlobals\<close> object in the context, the middleware fetches once,
  stores a record whose JSON is exactly \<open>{"name":"John Doe","age":42}\<close> (the private
  field is gone), prints \<open>true\<close> for \<open>result.super_secret_property == false\<close>, sets
  \<open>serializedGlobals.test\<close> and hands over to \<open>next\<close>.\<close>

theorem middleware_response:
  assumes "serializedGlobals st = Some g"
  shows "\<exists>st'. middleware next st = next st' \<and>
           json_stringify (test st') =
             Inr (Some (''{'' @ quote_json ''name'' @ '':'' @ quote_json ''John Doe'' @ '','' @
                        quote_json ''age'' @ '':42}'')) \<and>
           stdout st' = stdout st @ [''true''] \<and>
           serializedGlobals st' = Some (assoc_set ''test'' (JBool True) g) \<and>
           length (fetch_log st') = Suc (length (fetch_log st))"
  using assms unfolding middleware_eval Let_def
  apply simp
  apply (rule exI, rule conjI, rule refl)
  by (simp add: user_record_def json_stringify_def js_simps dec_eval)

theorem middleware_response_witness:
  "\<exists>st'. middleware (\<lambda>s. (s, Inr JUndefined))
           \<lparr>test = JUndefined, serializedGlobals = Some [], mw_heap = [], fetch_log = [], stdout = []\<rparr> =
         (st', Inr JUndefined) \<and>
         stdout st' = [''true''] \<and> length (fetch_log st') = 1"
  using middleware_response [of "\<lparr>test = JUndefined, serializedGlobals = Some [], mw_heap = [],
                                  fetch_log = [], stdout = []\<rparr>" "[]" "\<lambda>s. (s, Inr JUndefined)"]
  by auto

text \<open>C11: the debug boundary is not redacted: \<open>util.inspect\<close> of the record the
  middleware stores (what \<open>console.log(context.test)\<close> prints) shows the private field's
  value inside \<open>Private<...>\<close>, for any fuel that lets the rendering finish.\<close>

theorem middleware_log_reveals_secret:
  assumes "serializedGlobals st = Some g"
  shows "\<exists>st'. middleware next st = next st' \<and>
           util_inspect (Suc (Suc (Suc (Suc n)))) (test st') =
             Some (''{ name: '' @ [CHR 0x27] @ ''John Doe'' @ [CHR 0x27] @
               '', age: 42, super_secret_property: Private<'' @ stylize True StNumber ''false'' @ ''> }'')"
  using assms unfolding middleware_eval Let_def
  apply simp
  apply (rule exI, rule conjI, rule refl)
  by (simp add: user_record_def util_inspect_def js_simps inspect_hook_def value_of.simps format_key_def
     is_identifier_def braces_def dec_eval is_dec_digit_def str_escape_def str_escape_char_def
     stylize_def Let_def)

theorem middleware_log_reveals_secret_witness:
  "\<exists>st'. middleware (\<lambda>s. (s, Inr JUndefined))
           \<lparr>test = JUndefined, serializedGlobals = Some [], mw_heap = [], fetch_log = [], stdout = []\<rparr> =
         (st', Inr JUndefined) \<and>
         util_inspect 4 (test st') =
           Some (''{ name: '' @ [CHR 0x27] @ ''John Doe'' @ [CHR 0x27] @
             '', age: 42, super_secret_property: Private<'' @ stylize True StNumber ''false'' @ ''> }'')"
  using middleware_log_reveals_secret [of "\<lparr>test = JUndefined, serializedGlobals = Some [], mw_heap = [],
                                  fetch_log = [], stdout = []\<rparr>" "[]" "\<lambda>s. (s, Inr JUndefined)" 0]
  by (simp add: numeral_eq_Suc)

text \<open>C12: without a \<open>serializedGlobals\<close> object the middleware throws a TypeError after
  it has stored the record and printed the comparison, and never calls \<open>next\<close>.\<close>

theorem middleware_missing_globals:
  assumes "serializedGlobals st = None"
  shows "snd (middleware next st) = Inl (ThrownJs TypeError) \<and>
         middleware next st = middleware next' st \<and>
         test (fst (middleware next st)) = user_record \<and>
         stdout (fst (middleware next st)) = stdout st @ [''true'']"
  using assms by (simp add: middleware_eval Let_def)

theorem middleware_missing_globals_witness:
  "snd (middleware (\<lambda>s. (s, Inr JUndefined))
          \<lparr>test = JUndefined, serializedGlobals = None, mw_heap = [], fetch_log = [], stdout = []\<rparr>) =
     Inl (ThrownJs TypeError)"
  using middleware_missing_globals [of "\<lparr>test = JUndefined, serializedGlobals = None, mw_heap = [],
          fetch_log = [], stdout = []\<rparr>" "\<lambda>s. (s, Inr JUndefined)" "\<lambda>s. (s, Inr JUndefined)"]
  by simp

end
